theory Spec2Isabelle
  imports Main "HOL-Library.Word"
begin

unbundle bit_operations_syntax

section \<open>Data model of \<^verbatim>\<open>scripts/faad2_debug.c\<close>\<close>

type_synonym u8 = "8 word"
type_synonym u16 = "16 word"
type_synonym c_int = "32 word"
type_synonym c_ulong = "64 word"
type_synonym c_size_t = "64 word"

text \<open>
  The widths are those of the LP64 data model (64-bit Linux and macOS, where the tool
  is built): \<^verbatim>\<open>int\<close> has 32 bits, \<^verbatim>\<open>unsigned long\<close> and \<^verbatim>\<open>size_t\<close> have 64. Sums,
  products and quotients of \<^verbatim>\<open>unsigned long\<close> and \<^verbatim>\<open>size_t\<close> values are word
  operations, so they wrap around modulo \<open>2 ^ 64\<close> as in C.
\<close>

text \<open>
  \<^verbatim>\<open>#define ADTS_HEADER_SIZE 7\<close>
\<close>

definition ADTS_HEADER_SIZE :: nat where
  "ADTS_HEADER_SIZE = 7"

text \<open>
  \<^verbatim>\<open>adts_header_t\<close>: the struct of the source, field by field, with the C widths.
\<close>

record adts_header_t =
  syncword :: u16
  id_field :: u8
  layer :: u8
  protection_absent :: u8
  profile :: u8
  sf_index :: u8
  private_bit :: u8
  channel_config :: u8
  original :: u8
  home :: u8
  copyright_bit :: u8
  copyright_start :: u8
  frame_length :: u16
  buffer_fullness :: u16
  num_raw_blocks :: u8

text \<open>
  An operand of type \<^verbatim>\<open>uint8_t\<close> is promoted to \<^verbatim>\<open>int\<close> before \<^verbatim>\<open>>>\<close>,
  \<^verbatim>\<open><<\<close>, \<^verbatim>\<open>&\<close> and \<^verbatim>\<open>|\<close>; the result is converted back on the assignment to
  a \<^verbatim>\<open>uint8_t\<close> or \<^verbatim>\<open>uint16_t\<close> field. \<open>promote\<close> is the promotion, \<open>ucast\<close> the
  conversion back (it keeps the low bits).
\<close>

definition promote :: "u8 \<Rightarrow> c_int" where
  "promote b = ucast b"

text \<open>
  An \<^verbatim>\<open>int\<close> that meets an \<^verbatim>\<open>unsigned long\<close> or a \<^verbatim>\<open>size_t\<close> in an arithmetic
  expression is converted to that type: the value modulo \<open>2 ^ 64\<close>, which is the sign
  extension.
\<close>

definition ulong_of_int :: "c_int \<Rightarrow> c_ulong" where
  "ulong_of_int i = scast i"

section \<open>\<^verbatim>\<open>parse_adts_header\<close>\<close>

text \<open>
  The pair \<^verbatim>\<open>(data, len)\<close> of the source is the list \<open>data\<close> with \<open>len = length data\<close>:
  the caller passes \<^verbatim>\<open>file_data + pos\<close> and \<^verbatim>\<open>file_size - pos\<close>. The return value
  \<^verbatim>\<open>-1\<close> is \<open>None\<close>; the return value \<^verbatim>\<open>0\<close> with the filled \<^verbatim>\<open>*hdr\<close> is \<open>Some hdr\<close>.
\<close>

definition parse_adts_header :: "u8 list \<Rightarrow> adts_header_t option" where
  "parse_adts_header data =
    (if length data < ADTS_HEADER_SIZE then None
     else if data ! 0 \<noteq> 0xFF \<or> (promote (data ! 1) AND 0xF0) \<noteq> 0xF0 then None
     else Some \<lparr>
       syncword = 0xFFF,
       id_field = ucast (drop_bit 3 (promote (data ! 1)) AND 0x01),
       layer = ucast (drop_bit 1 (promote (data ! 1)) AND 0x03),
       protection_absent = ucast (promote (data ! 1) AND 0x01),
       profile = ucast (drop_bit 6 (promote (data ! 2)) AND 0x03),
       sf_index = ucast (drop_bit 2 (promote (data ! 2)) AND 0x0F),
       private_bit = ucast (drop_bit 1 (promote (data ! 2)) AND 0x01),
       channel_config = ucast (push_bit 2 (promote (data ! 2) AND 0x01)
                               OR (drop_bit 6 (promote (data ! 3)) AND 0x03)),
       original = ucast (drop_bit 5 (promote (data ! 3)) AND 0x01),
       home = ucast (drop_bit 4 (promote (data ! 3)) AND 0x01),
       copyright_bit = ucast (drop_bit 3 (promote (data ! 3)) AND 0x01),
       copyright_start = ucast (drop_bit 2 (promote (data ! 3)) AND 0x01),
       frame_length = ucast (push_bit 11 (promote (data ! 3) AND 0x03)
                             OR push_bit 3 (promote (data ! 4))
                             OR (drop_bit 5 (promote (data ! 5)) AND 0x07)),
       buffer_fullness = ucast (push_bit 6 (promote (data ! 5) AND 0x1F)
                                OR (drop_bit 2 (promote (data ! 6)) AND 0x3F)),
       num_raw_blocks = ucast (promote (data ! 6) AND 0x03)
     \<rparr>)"

section \<open>\<^verbatim>\<open>find_adts_sync\<close>\<close>

text \<open>
  The function returns \<^verbatim>\<open>(int)i\<close> for an index \<^verbatim>\<open>i\<close> of type \<^verbatim>\<open>size_t\<close>. When
  \<^verbatim>\<open>i\<close> does not fit an \<^verbatim>\<open>int\<close> the conversion is implementation-defined; gcc,
  clang and MSVC reduce the value modulo \<open>2 ^ 32\<close> and read it as two's complement,
  which is what \<open>int_of_size_t\<close> does. Indices themselves are \<open>nat\<close>: \<^verbatim>\<open>i + 1 < len\<close>
  cannot wrap, since \<^verbatim>\<open>i < len\<close> whenever it is evaluated.
\<close>

definition int_of_size_t :: "nat \<Rightarrow> int" where
  "int_of_size_t i = sint (word_of_nat i :: c_int)"

function find_adts_sync_from :: "u8 list \<Rightarrow> nat \<Rightarrow> int" where
  "find_adts_sync_from data i =
    (if i + 1 < length data then
       (if data ! i = 0xFF \<and> (promote (data ! (i + 1)) AND 0xF0) = 0xF0
        then int_of_size_t i
        else find_adts_sync_from data (i + 1))
     else - 1)"
  by pat_completeness auto
termination
  by (relation "measure (\<lambda>(data, i). length data - i)") auto

declare find_adts_sync_from.simps [simp del]

definition find_adts_sync :: "u8 list \<Rightarrow> int" where
  "find_adts_sync data = find_adts_sync_from data 0"

section \<open>The artifact writer\<close>

text \<open>
  Output files. The source builds each name with \<^verbatim>\<open>snprintf\<close> from the output
  directory and the frame number (\<^verbatim>\<open>"%s/frame_%04d_adts.bin"\<close>,
  \<^verbatim>\<open>"%s/frame_%04d_pcm.bin"\<close>, \<^verbatim>\<open>"%s/info.json"\<close>); a path is kept as the pattern
  together with its two arguments.
\<close>

datatype artifact_path =
    Frame_adts_bin string int
  | Frame_pcm_bin string int
  | Info_json string

text \<open>The text written by \<^verbatim>\<open>write_info_json\<close>: its four numbers and the fixed format.\<close>

record info_json =
  js_sample_rate :: c_ulong
  js_channels :: u8
  js_total_frames :: int
  js_total_samples :: c_ulong
  js_format :: string

text \<open>
  Everything the program does to the outside world, in the order in which it happens:
  messages on \<^verbatim>\<open>stderr\<close> and \<^verbatim>\<open>stdout\<close>, files written, and the calls into the
  external decoder that follow \<^verbatim>\<open>NeAACDecOpen\<close> and the configuration.
\<close>

datatype event =
    Stderr_usage
  | Stderr_cannot_open
  | Stderr_out_of_memory
  | Stderr_cannot_read
  | Stderr_no_sync
  | Stderr_skipped int
  | Stderr_no_decoder
  | Stderr_init_failed
  | Stderr_cannot_create artifact_path
  | Stderr_invalid_header int
  | Stderr_invalid_length int
  | Stderr_decode_error int u8
  | Stdout_initialized c_ulong u8
  | Stdout_output_dir string
  | Stdout_frame int c_ulong u8
  | Stdout_decoded int c_ulong
  | File_written artifact_path "u8 list"
  | Info_written artifact_path info_json
  | Call_NeAACDecInit nat
  | Call_NeAACDecDecode nat
  | Call_NeAACDecClose

text \<open>
  \<^verbatim>\<open>dump_binary\<close>: \<open>fopen_ok\<close> tells whether \<^verbatim>\<open>fopen(path, "wb")\<close> succeeds.
  \<^verbatim>\<open>fwrite(data, 1, size, f)\<close> writes the first \<open>sz\<close> bytes at \<open>data\<close>.
\<close>

definition dump_binary ::
  "(artifact_path \<Rightarrow> bool) \<Rightarrow> artifact_path \<Rightarrow> u8 list \<Rightarrow> c_size_t
    \<Rightarrow> event list \<times> int" where
  "dump_binary fopen_ok path data sz =
    (if \<not> fopen_ok path then ([Stderr_cannot_create path], - 1)
     else ([File_written path (take (unat sz) data)], 0))"

definition promote16 :: "u16 \<Rightarrow> c_int" where
  "promote16 w = ucast w"

text \<open>
  The sixteen assignments of \<^verbatim>\<open>dump_adts_header\<close> to its local \<^verbatim>\<open>uint8_t buf[16]\<close>.
  The array is not initialised in the source: \<open>buf0\<close> gives its sixteen bytes before
  the first assignment.
\<close>

definition adts_header_buf :: "(nat \<Rightarrow> u8) \<Rightarrow> adts_header_t \<Rightarrow> u8 list" where
  "adts_header_buf buf0 hdr = (map buf0 [0..<16])
    [0 := ucast (drop_bit 8 (promote16 (syncword hdr)) AND 0xFF),
     1 := ucast (promote16 (syncword hdr) AND 0xFF),
     2 := id_field hdr,
     3 := layer hdr,
     4 := protection_absent hdr,
     5 := profile hdr,
     6 := sf_index hdr,
     7 := private_bit hdr,
     8 := channel_config hdr,
     9 := original hdr,
     10 := home hdr,
     11 := ucast (drop_bit 8 (promote16 (frame_length hdr)) AND 0xFF),
     12 := ucast (promote16 (frame_length hdr) AND 0xFF),
     13 := ucast (drop_bit 8 (promote16 (buffer_fullness hdr)) AND 0xFF),
     14 := ucast (promote16 (buffer_fullness hdr) AND 0xFF),
     15 := num_raw_blocks hdr]"

definition dump_adts_header ::
  "(artifact_path \<Rightarrow> bool) \<Rightarrow> (nat \<Rightarrow> u8) \<Rightarrow> string \<Rightarrow> int \<Rightarrow> adts_header_t
    \<Rightarrow> event list \<times> int" where
  "dump_adts_header fopen_ok buf0 dir frame hdr =
    dump_binary fopen_ok (Frame_adts_bin dir frame) (adts_header_buf buf0 hdr) 16"

text \<open>
  The output formats of \<^verbatim>\<open>neaacdec.h\<close>, which is not part of the repository: the
  five names the \<^verbatim>\<open>switch\<close> of \<^verbatim>\<open>dump_pcm\<close> lists, and any other value.
\<close>

datatype faad_fmt =
    FAAD_FMT_16BIT
  | FAAD_FMT_24BIT
  | FAAD_FMT_32BIT
  | FAAD_FMT_FLOAT
  | FAAD_FMT_DOUBLE
  | FAAD_FMT_other int

fun sample_size :: "faad_fmt \<Rightarrow> c_size_t" where
  "sample_size FAAD_FMT_16BIT = 2"
| "sample_size FAAD_FMT_24BIT = 4"
| "sample_size FAAD_FMT_32BIT = 4"
| "sample_size FAAD_FMT_FLOAT = 4"
| "sample_size FAAD_FMT_DOUBLE = 8"
| "sample_size (FAAD_FMT_other v) = 2"

definition dump_pcm ::
  "(artifact_path \<Rightarrow> bool) \<Rightarrow> string \<Rightarrow> int \<Rightarrow> u8 list \<Rightarrow> c_size_t \<Rightarrow> c_int
    \<Rightarrow> faad_fmt \<Rightarrow> event list \<times> int" where
  "dump_pcm fopen_ok dir frame samples num_samples channels format =
    dump_binary fopen_ok (Frame_pcm_bin dir frame) samples
      (num_samples * ulong_of_int channels * sample_size format)"

definition write_info_json ::
  "(artifact_path \<Rightarrow> bool) \<Rightarrow> string \<Rightarrow> c_ulong \<Rightarrow> u8 \<Rightarrow> int \<Rightarrow> c_ulong
    \<Rightarrow> event list \<times> int" where
  "write_info_json fopen_ok dir sample_rate channels total_frames total_samples =
    (if \<not> fopen_ok (Info_json dir) then ([], - 1)
     else ([Info_written (Info_json dir)
              \<lparr>js_sample_rate = sample_rate, js_channels = channels,
               js_total_frames = total_frames, js_total_samples = total_samples,
               js_format = ''int16''\<rparr>], 0))"

section \<open>The external decoder and the environment\<close>

text \<open>
  \<^verbatim>\<open>NeAACDecFrameInfo\<close> of \<^verbatim>\<open>neaacdec.h\<close>, restricted to the members the program
  reads: \<^verbatim>\<open>unsigned long samples\<close>, \<^verbatim>\<open>unsigned char channels\<close> and
  \<^verbatim>\<open>unsigned char error\<close>.
\<close>

record NeAACDecFrameInfo =
  fi_samples :: c_ulong
  fi_channels :: u8
  fi_error :: u8

text \<open>
  FAAD2 is a library outside the repository, so the program is modelled for any
  decoder: \<open>'d\<close> is the state behind a \<^verbatim>\<open>NeAACDecHandle\<close>, and every call takes the
  state and returns the new one.
  \<^item> \<open>NeAACDecOpen\<close> is \<open>None\<close> when the call returns \<^verbatim>\<open>NULL\<close>.
  \<^item> \<open>NeAACDecSetConfiguration d fmt dm\<close> stores \<^verbatim>\<open>outputFormat = fmt\<close> and
    \<^verbatim>\<open>downMatrix = dm\<close>.
  \<^item> \<open>NeAACDecInit d buffer\<close> returns \<^verbatim>\<open>bytes_consumed\<close>, the values it stores
    through \<^verbatim>\<open>&sample_rate\<close> and \<^verbatim>\<open>&channels\<close>, and the new state.
  \<^item> \<open>NeAACDecDecode d buffer\<close> returns the frame info it fills in, the sample
    buffer (\<open>None\<close> for \<^verbatim>\<open>NULL\<close>, else its bytes) and the new state.
  \<open>fopen_ok\<close> answers each \<^verbatim>\<open>fopen\<close> for writing and \<open>uninit\<close> gives the contents of
  the uninitialised local array of \<^verbatim>\<open>dump_adts_header\<close>.
\<close>

record 'd env =
  NeAACDecOpen :: "'d option"
  NeAACDecSetConfiguration :: "'d \<Rightarrow> faad_fmt \<Rightarrow> nat \<Rightarrow> 'd"
  NeAACDecInit :: "'d \<Rightarrow> u8 list \<Rightarrow> int \<times> c_ulong \<times> u8 \<times> 'd"
  NeAACDecDecode :: "'d \<Rightarrow> u8 list \<Rightarrow> NeAACDecFrameInfo \<times> u8 list option \<times> 'd"
  fopen_ok :: "artifact_path \<Rightarrow> bool"
  uninit :: "nat \<Rightarrow> u8"

section \<open>The decode loop of \<^verbatim>\<open>main\<close>\<close>

text \<open>
  The variables the loop changes: \<^verbatim>\<open>pos\<close>, \<^verbatim>\<open>frame_num\<close>, \<^verbatim>\<open>total_samples\<close>, the
  decoder, and the events so far.

  \<^verbatim>\<open>total_samples\<close> is an \<^verbatim>\<open>unsigned long\<close> and wraps around. The offsets \<^verbatim>\<open>pos\<close>
  and \<^verbatim>\<open>file_size\<close> are natural numbers: \<^verbatim>\<open>file_data\<close> is one object in memory, so
  \<^verbatim>\<open>file_size\<close> is below \<open>2 ^ 63\<close>, and the largest offset the program computes is
  \<^verbatim>\<open>pos + frame_length\<close> with \<^verbatim>\<open>pos < file_size\<close> and \<^verbatim>\<open>frame_length < 8192\<close>, which
  does not wrap. \<^verbatim>\<open>frame_num\<close> is an \<^verbatim>\<open>int\<close> that is incremented only while it is below
  \<^verbatim>\<open>max_frames\<close>, so it never overflows.
\<close>

record 'd loop_state =
  pos :: nat
  frame_num :: int
  total_samples :: c_ulong
  decoder :: 'd
  events :: "event list"

datatype fault = Division_by_zero

datatype 'a step = Break | Continue 'a | Trap fault "event list"

text \<open>
  One pass through the body of \<^verbatim>\<open>while (pos < file_size && frame_num < max_frames)\<close>:
  \<open>Break\<close> for \<^verbatim>\<open>break\<close>, \<open>Continue\<close> for \<^verbatim>\<open>continue\<close> and for reaching the end of the
  body. \<^verbatim>\<open>frame_info.samples / frame_info.channels\<close> divides by zero when the decoder
  reports no channels: the behaviour is undefined in C, and on x86 the process is
  killed by a signal, which is \<open>Trap\<close> with the events up to that point.
\<close>

definition loop_body ::
  "'d env \<Rightarrow> u8 list \<Rightarrow> string \<Rightarrow> 'd loop_state \<Rightarrow> 'd loop_state step" where
  "loop_body e file_data output_dir s =
    (let next_sync = find_adts_sync (drop (pos s) file_data) in
     if next_sync < 0 then Break
     else
       let p = pos s + nat next_sync in
       case parse_adts_header (drop p file_data) of
         None \<Rightarrow>
           Continue (s\<lparr>pos := p + 1,
                       events := events s @ [Stderr_invalid_header (frame_num s)]\<rparr>)
       | Some adts_hdr \<Rightarrow>
           if unat (frame_length adts_hdr) < ADTS_HEADER_SIZE
              \<or> p + unat (frame_length adts_hdr) > length file_data
           then
             Continue (s\<lparr>pos := p + 1,
                         events := events s @ [Stderr_invalid_length (frame_num s)]\<rparr>)
           else
             let ev_hdr = fst (dump_adts_header (fopen_ok e) (uninit e) output_dir
                                 (frame_num s) adts_hdr);
                 (frame_info, samples, d') = NeAACDecDecode e (decoder s) (drop p file_data);
                 ev_dec = events s @ ev_hdr @ [Call_NeAACDecDecode p]
             in
               if fi_error frame_info \<noteq> 0 then
                 Continue (s\<lparr>pos := p + unat (frame_length adts_hdr),
                             frame_num := frame_num s + 1,
                             decoder := d',
                             events := ev_dec @
                               [Stderr_decode_error (frame_num s) (fi_error frame_info)]\<rparr>)
               else if samples \<noteq> None \<and> fi_samples frame_info > 0 then
                 if fi_channels frame_info = 0 then Trap Division_by_zero ev_dec
                 else
                   let per_channel = fi_samples frame_info
                                       div ulong_of_int (promote (fi_channels frame_info));
                       ev_pcm = fst (dump_pcm (fopen_ok e) output_dir (frame_num s)
                                       (the samples) per_channel
                                       (promote (fi_channels frame_info)) FAAD_FMT_16BIT)
                   in
                     Continue (s\<lparr>pos := p + unat (frame_length adts_hdr),
                                 frame_num := frame_num s + 1,
                                 total_samples := total_samples s + per_channel,
                                 decoder := d',
                                 events := ev_dec @ ev_pcm @
                                   [Stdout_frame (frame_num s) (fi_samples frame_info)
                                      (fi_channels frame_info)]\<rparr>)
               else
                 Continue (s\<lparr>pos := p + unat (frame_length adts_hdr),
                             frame_num := frame_num s + 1,
                             decoder := d',
                             events := ev_dec @
                               [Stdout_frame (frame_num s) (fi_samples frame_info)
                                  (fi_channels frame_info)]\<rparr>))"

function decode_loop ::
  "'d env \<Rightarrow> u8 list \<Rightarrow> int \<Rightarrow> string \<Rightarrow> 'd loop_state
    \<Rightarrow> (fault \<times> event list) + 'd loop_state" where
  "decode_loop e file_data max_frames output_dir s =
    (if pos s < length file_data \<and> frame_num s < max_frames then
       (case loop_body e file_data output_dir s of
          Break \<Rightarrow> Inr s
        | Continue s' \<Rightarrow> decode_loop e file_data max_frames output_dir s'
        | Trap f evs \<Rightarrow> Inl (f, evs))
     else Inr s)"
  by pat_completeness auto
termination
  by (relation "measure (\<lambda>(e, file_data, max_frames, output_dir, s). length file_data - pos s)")
     (auto simp: loop_body_def Let_def ADTS_HEADER_SIZE_def
           split: if_splits option.splits prod.splits)

declare decode_loop.simps [simp del]

text \<open>
  The same loop with a bound on the number of passes through the body: \<open>None\<close> when the
  bound is reached before the loop has ended.
\<close>

fun decode_loop_fuel ::
  "nat \<Rightarrow> 'd env \<Rightarrow> u8 list \<Rightarrow> int \<Rightarrow> string \<Rightarrow> 'd loop_state
    \<Rightarrow> ((fault \<times> event list) + 'd loop_state) option" where
  "decode_loop_fuel n e file_data max_frames output_dir s =
    (if pos s < length file_data \<and> frame_num s < max_frames then
       (case n of
          0 \<Rightarrow> None
        | Suc m \<Rightarrow>
            (case loop_body e file_data output_dir s of
               Break \<Rightarrow> Some (Inr s)
             | Continue s' \<Rightarrow> decode_loop_fuel m e file_data max_frames output_dir s'
             | Trap f evs \<Rightarrow> Some (Inl (f, evs))))
     else Some (Inr s))"

declare decode_loop_fuel.simps [simp del]

section \<open>\<^verbatim>\<open>main\<close>\<close>

text \<open>
  What reading the input file gives: one of the three failures the source reports, or
  the \<^verbatim>\<open>file_size\<close> bytes of \<^verbatim>\<open>file_data\<close>.
\<close>

datatype file_read =
    Cannot_open
  | Out_of_memory
  | Cannot_read
  | Loaded "u8 list"

definition INT32_MAX :: int where
  "INT32_MAX = 2147483647"

text \<open>
  \<open>argc\<close> is the argument count, \<open>argv3\<close> the value of \<^verbatim>\<open>atoi(argv[3])\<close>, \<open>output_dir\<close>
  is \<^verbatim>\<open>argv[2]\<close> and \<open>input\<close> the outcome of loading \<^verbatim>\<open>argv[1]\<close>. The result is the
  exit status with the events of the run, or the fault that killed the process with the
  events before it.
\<close>

definition faad2_debug_main ::
  "'d env \<Rightarrow> nat \<Rightarrow> int \<Rightarrow> string \<Rightarrow> file_read
    \<Rightarrow> (fault \<times> event list) + (int \<times> event list)" where
  "faad2_debug_main e argc argv3 output_dir input =
    (if argc < 3 then Inr (1, [Stderr_usage])
     else
       let max_frames = (if argc > 3 then argv3 else INT32_MAX) in
       case input of
         Cannot_open \<Rightarrow> Inr (1, [Stderr_cannot_open])
       | Out_of_memory \<Rightarrow> Inr (1, [Stderr_out_of_memory])
       | Cannot_read \<Rightarrow> Inr (1, [Stderr_cannot_read])
       | Loaded file_data \<Rightarrow>
           let sync_offset = find_adts_sync file_data in
           if sync_offset < 0 then Inr (1, [Stderr_no_sync])
           else
             let ev_sync = (if sync_offset > 0 then [Stderr_skipped sync_offset] else []) in
             case NeAACDecOpen e of
               None \<Rightarrow> Inr (1, ev_sync @ [Stderr_no_decoder])
             | Some d0 \<Rightarrow>
                 let d1 = NeAACDecSetConfiguration e d0 FAAD_FMT_16BIT 0;
                     (bytes_consumed, sample_rate, channels, d2) =
                        NeAACDecInit e d1 (drop (nat sync_offset) file_data);
                     ev_init = ev_sync @ [Call_NeAACDecInit (nat sync_offset)]
                 in
                   if bytes_consumed < 0 then
                     Inr (1, ev_init @ [Stderr_init_failed, Call_NeAACDecClose])
                   else
                     case decode_loop e file_data max_frames output_dir
                            \<lparr>pos = nat sync_offset, frame_num = 0, total_samples = 0,
                             decoder = d2,
                             events = ev_init @ [Stdout_initialized sample_rate channels,
                                                 Stdout_output_dir output_dir]\<rparr> of
                       Inl killed \<Rightarrow> Inl killed
                     | Inr s \<Rightarrow>
                         Inr (0, events s
                                @ fst (write_info_json (fopen_ok e) output_dir sample_rate
                                         channels (frame_num s) (total_samples s))
                                @ [Stdout_decoded (frame_num s) (total_samples s),
                                   Call_NeAACDecClose]))"

text \<open>The events of a run, however it ended.\<close>

fun run_events :: "(fault \<times> event list) + (int \<times> event list) \<Rightarrow> event list" where
  "run_events (Inl (f, evs)) = evs"
| "run_events (Inr (status, evs)) = evs"

text \<open>
  The events by which a run shows what happened to a sync candidate: the call of the
  decoder on a frame that passed header parsing and length validation, followed by
  the decode error or by the line printed for a decoded frame; and the warning for a
  candidate that was rejected.
\<close>

fun is_decode_call :: "event \<Rightarrow> bool" where
  "is_decode_call (Call_NeAACDecDecode p) = True"
| "is_decode_call ev = False"

fun is_decode_error :: "event \<Rightarrow> bool" where
  "is_decode_error (Stderr_decode_error n c) = True"
| "is_decode_error ev = False"

fun is_frame_line :: "event \<Rightarrow> bool" where
  "is_frame_line (Stdout_frame n k c) = True"
| "is_frame_line ev = False"

fun is_rejection :: "event \<Rightarrow> bool" where
  "is_rejection (Stderr_invalid_header n) = True"
| "is_rejection (Stderr_invalid_length n) = True"
| "is_rejection ev = False"

fun is_info :: "event \<Rightarrow> bool" where
  "is_info (Info_written p js) = True"
| "is_info ev = False"

fun is_frame_artifact :: "event \<Rightarrow> bool" where
  "is_frame_artifact (File_written (Frame_adts_bin d n) bs) = True"
| "is_frame_artifact (File_written (Frame_pcm_bin d n) bs) = True"
| "is_frame_artifact ev = False"

section \<open>The bit fields of the ADTS header, as the specification words them\<close>

text \<open>
  A bit reader over the header bytes: the bits of each byte from the most significant
  one, the bytes in order, and a field of width \<open>w\<close> at bit offset \<open>off\<close> read as a
  big-endian number.
\<close>

definition bits_of_byte :: "u8 \<Rightarrow> bool list" where
  "bits_of_byte b = map (bit b) [7, 6, 5, 4, 3, 2, 1, 0]"

definition bitstream :: "u8 list \<Rightarrow> bool list" where
  "bitstream data = concat (map bits_of_byte data)"

definition be_value :: "bool list \<Rightarrow> nat" where
  "be_value bs = foldl (\<lambda>acc b. 2 * acc + of_bool b) 0 bs"

definition read_field :: "u8 list \<Rightarrow> nat \<Rightarrow> nat \<Rightarrow> nat" where
  "read_field data off w = be_value (take w (drop off (bitstream data)))"

text \<open>The sync pattern: a byte \<open>0xFF\<close> followed by a byte whose top nibble is \<open>0xF\<close>.\<close>

definition sync_pattern :: "u8 \<Rightarrow> u8 \<Rightarrow> bool" where
  "sync_pattern b0 b1 = (b0 = 0xFF \<and> drop_bit 4 b1 = 0xF)"

definition sync_at :: "u8 list \<Rightarrow> nat \<Rightarrow> bool" where
  "sync_at data i = (i + 1 < length data \<and> sync_pattern (data ! i) (data ! (i + 1)))"

section \<open>The header artifact, as the specification words it\<close>

text \<open>
  A two-byte big-endian field and its reading; the sixteen-byte record made of the
  sync marker, nine single-byte fields, the frame length, the buffer fullness and the
  raw-block count; the same record followed by one reserved byte; and the decoding of
  a record into the fields it stores.
\<close>

definition be16 :: "u16 \<Rightarrow> u8 list" where
  "be16 w = [ucast (drop_bit 8 w), ucast w]"

definition header_record :: "adts_header_t \<Rightarrow> u8 list" where
  "header_record hdr =
    be16 (syncword hdr)
    @ [id_field hdr, layer hdr, protection_absent hdr, profile hdr, sf_index hdr,
       private_bit hdr, channel_config hdr, original hdr, home hdr]
    @ be16 (frame_length hdr) @ be16 (buffer_fullness hdr)
    @ [num_raw_blocks hdr]"

definition spec_header_record :: "adts_header_t \<Rightarrow> u8 \<Rightarrow> u8 list" where
  "spec_header_record hdr reserved = header_record hdr @ [reserved]"

definition un_be16 :: "u8 \<Rightarrow> u8 \<Rightarrow> u16" where
  "un_be16 hi lo = push_bit 8 (ucast hi) OR ucast lo"

record dumped_fields =
  df_syncword :: u16
  df_id :: u8
  df_layer :: u8
  df_protection_absent :: u8
  df_profile :: u8
  df_sf_index :: u8
  df_private_bit :: u8
  df_channel_config :: u8
  df_original :: u8
  df_home :: u8
  df_frame_length :: u16
  df_buffer_fullness :: u16
  df_num_raw_blocks :: u8

definition decode_header_artifact :: "u8 list \<Rightarrow> dumped_fields" where
  "decode_header_artifact bs =
    \<lparr>df_syncword = un_be16 (bs ! 0) (bs ! 1),
     df_id = bs ! 2, df_layer = bs ! 3, df_protection_absent = bs ! 4, df_profile = bs ! 5,
     df_sf_index = bs ! 6, df_private_bit = bs ! 7, df_channel_config = bs ! 8,
     df_original = bs ! 9, df_home = bs ! 10,
     df_frame_length = un_be16 (bs ! 11) (bs ! 12),
     df_buffer_fullness = un_be16 (bs ! 13) (bs ! 14),
     df_num_raw_blocks = bs ! 15\<rparr>"

text \<open>Concrete environments for the examples.\<close>

definition always_ok :: "artifact_path \<Rightarrow> bool" where
  "always_ok p = True"

definition zero_buf :: "nat \<Rightarrow> u8" where
  "zero_buf i = 0"

definition dumped_fields_of :: "adts_header_t \<Rightarrow> dumped_fields" where
  "dumped_fields_of h =
    \<lparr>df_syncword = syncword h,
     df_id = id_field h, df_layer = layer h, df_protection_absent = protection_absent h,
     df_profile = profile h, df_sf_index = sf_index h, df_private_bit = private_bit h,
     df_channel_config = channel_config h, df_original = original h, df_home = home h,
     df_frame_length = frame_length h, df_buffer_fullness = buffer_fullness h,
     df_num_raw_blocks = num_raw_blocks h\<rparr>"

section \<open>Properties of the events of a run\<close>

text \<open>
  A header artifact is well formed when it has sixteen bytes and starts with \<open>0x0F\<close>,
  \<open>0xFF\<close>; every other event is.
\<close>

fun good_adts_event :: "event \<Rightarrow> bool" where
  "good_adts_event (File_written (Frame_adts_bin d n) bs) = (length bs = 16 \<and> take 2 bs = [0x0F, 0xFF])"
| "good_adts_event ev = True"

text \<open>
  The state in which \<^verbatim>\<open>main\<close> enters the loop, and the events that only the loop and
  the summary after it produce.
\<close>

definition main_loop_start ::
  "int \<Rightarrow> c_ulong \<Rightarrow> u8 \<Rightarrow> 'd \<Rightarrow> string \<Rightarrow> 'd loop_state" where
  "main_loop_start sync_offset sample_rate channels d output_dir =
    \<lparr>pos = nat sync_offset, frame_num = 0, total_samples = 0, decoder = d,
     events = (if sync_offset > 0 then [Stderr_skipped sync_offset] else [])
              @ [Call_NeAACDecInit (nat sync_offset)]
              @ [Stdout_initialized sample_rate channels, Stdout_output_dir output_dir]\<rparr>"

fun is_loop_event :: "event \<Rightarrow> bool" where
  "is_loop_event (Stderr_cannot_create p) = True"
| "is_loop_event (Stderr_invalid_header n) = True"
| "is_loop_event (Stderr_invalid_length n) = True"
| "is_loop_event (Stderr_decode_error n c) = True"
| "is_loop_event (Stdout_frame n k c) = True"
| "is_loop_event (File_written p bs) = True"
| "is_loop_event (Info_written p js) = True"
| "is_loop_event (Call_NeAACDecDecode p) = True"
| "is_loop_event (Stdout_decoded n k) = True"
| "is_loop_event ev = False"

text \<open>
  The frame counter agrees with the events: it is the number of decoder calls, which
  is the number of decode errors plus the number of frame lines, and no summary has
  been written.
\<close>

definition frames_counted :: "'d loop_state \<Rightarrow> bool" where
  "frames_counted s \<longleftrightarrow>
     frame_num s = int (length (filter is_decode_call (events s)))
     \<and> frame_num s = int (length (filter is_decode_error (events s)))
                     + int (length (filter is_frame_line (events s)))
     \<and> filter is_info (events s) = []"

section \<open>Sync candidates and valid frames\<close>

text \<open>
  The sync candidate a pass of the loop reaches from the cursor \<open>p\<close>; whether the bytes
  at an offset \<open>c\<close> pass header parsing and frame-length validation (the header parses,
  its frame length is at least 7 and the frame ends inside the input); the frame length
  declared there; and whether the decoder, called on the frame, reports success with a
  sample buffer, a positive sample count and no channels, which makes the program
  divide by zero.
\<close>

definition next_candidate :: "u8 list \<Rightarrow> nat \<Rightarrow> nat" where
  "next_candidate fd p = p + nat (find_adts_sync (drop p fd))"

definition valid_frame_at :: "u8 list \<Rightarrow> nat \<Rightarrow> bool" where
  "valid_frame_at fd c =
    (case parse_adts_header (drop c fd) of
       None \<Rightarrow> False
     | Some h \<Rightarrow> 7 \<le> unat (frame_length h) \<and> c + unat (frame_length h) \<le> length fd)"

definition frame_length_at :: "u8 list \<Rightarrow> nat \<Rightarrow> nat" where
  "frame_length_at fd c =
    (case parse_adts_header (drop c fd) of
       None \<Rightarrow> 0
     | Some h \<Rightarrow> unat (frame_length h))"

definition divides_by_zero :: "'d env \<Rightarrow> 'd \<Rightarrow> u8 list \<Rightarrow> bool" where
  "divides_by_zero e d buffer =
    (case NeAACDecDecode e d buffer of
       (fi, samples, d') \<Rightarrow>
         fi_error fi = 0 \<and> samples \<noteq> None \<and> 0 < fi_samples fi \<and> fi_channels fi = 0)"

text \<open>
  The sync candidates that the loop reaches from a state, in order: one for every
  pass that does not leave the loop at the scan, whatever the pass then does.
\<close>

function visited_candidates ::
  "'d env \<Rightarrow> u8 list \<Rightarrow> int \<Rightarrow> string \<Rightarrow> 'd loop_state \<Rightarrow> nat list" where
  "visited_candidates e file_data max_frames output_dir s =
    (if pos s < length file_data \<and> frame_num s < max_frames then
       (if find_adts_sync (drop (pos s) file_data) < 0 then []
        else next_candidate file_data (pos s) #
          (case loop_body e file_data output_dir s of
             Break \<Rightarrow> []
           | Continue s' \<Rightarrow> visited_candidates e file_data max_frames output_dir s'
           | Trap f evs \<Rightarrow> []))
     else [])"
  by pat_completeness auto
termination
  by (relation "measure (\<lambda>(e, file_data, max_frames, output_dir, s). length file_data - pos s)")
     (auto simp: loop_body_def Let_def ADTS_HEADER_SIZE_def
           split: if_splits option.splits prod.splits)

declare visited_candidates.simps [simp del]

section \<open>An example run\<close>

text \<open>
  A decoder that reports five samples on two channels for every frame, and a file
  with one stray byte, one frame of seven bytes and a truncated header.
\<close>

definition example_env :: "unit env" where
  "example_env =
    \<lparr>NeAACDecOpen = Some (),
     NeAACDecSetConfiguration = (\<lambda>d fmt dm. d),
     NeAACDecInit = (\<lambda>d buffer. (0, 44100, 2, d)),
     NeAACDecDecode = (\<lambda>d buffer.
        (\<lparr>fi_samples = 5, fi_channels = 2, fi_error = 0\<rparr>,
         Some [1, 2, 3, 4, 5, 6, 7, 8, 9, 10], d)),
     fopen_ok = always_ok,
     uninit = zero_buf\<rparr>"

definition example_file :: "u8 list" where
  "example_file = [0x00, 0xFF, 0xF1, 0x50, 0x80, 0x00, 0xFF, 0xFC, 0xFF, 0xF1, 0x00]"

text \<open>A file whose only sync pattern comes after \<open>2 ^ 31\<close> zero bytes.\<close>

definition late_sync_file :: "u8 list" where
  "late_sync_file = replicate 2147483648 0 @ [0xFF, 0xF0]"

section \<open>Words as bit strings\<close>

text \<open>
  The value of a word is the Horner sum of its bits; with it, an equation between a
  shift-and-mask expression and a field of the bit reader becomes an equation between
  the same bits.
\<close>

lemma unat_word_bits:
  "unat (w :: 'a::len word) = horner_sum of_bool 2 (map (bit w) [0..<LENGTH('a)])"
proof -
  have "unat w = take_bit LENGTH('a) (unat w)"
    by (rule take_bit_nat_eq_self [symmetric]) (rule unsigned_less)
  also have "\<dots> = horner_sum of_bool 2 (map (bit (unat w)) [0..<LENGTH('a)])"
    by (simp add: horner_sum_bit_eq_take_bit)
  also have "map (bit (unat w)) [0..<LENGTH('a)] = map (bit w) [0..<LENGTH('a)]"
    by (simp add: bit_unsigned_iff)
  finally show ?thesis .
qed

lemma upt_0_8: "[0..<8] = [0, 1, 2, 3, 4, 5, 6, 7]"
  by (simp add: upt_rec)

lemma upt_0_16: "[0..<16] = [0, 1, 2, 3, 4, 5, 6, 7, 8, 9, 10, 11, 12, 13, 14, 15]"
  by (simp add: upt_rec)

lemma upt_0_32: "[0..<32] = [0, 1, 2, 3, 4, 5, 6, 7, 8, 9, 10, 11, 12, 13, 14, 15,
      16, 17, 18, 19, 20, 21, 22, 23, 24, 25, 26, 27, 28, 29, 30, 31]"
  by (simp add: upt_rec)

lemma unat_u8_bits:
  "unat (w :: u8) = horner_sum of_bool 2 (map (bit w) [0, 1, 2, 3, 4, 5, 6, 7])"
  using unat_word_bits [of w] by (simp add: upt_0_8 upt_0_16 upt_0_32)

lemma unat_u16_bits:
  "unat (w :: u16) =
    horner_sum of_bool 2 (map (bit w) [0, 1, 2, 3, 4, 5, 6, 7, 8, 9, 10, 11, 12, 13, 14, 15])"
  using unat_word_bits [of w] by (simp add: upt_0_8 upt_0_16 upt_0_32)

lemma unat_c_int_bits:
  "unat (w :: c_int) =
    horner_sum of_bool 2 (map (bit w) [0, 1, 2, 3, 4, 5, 6, 7, 8, 9, 10, 11, 12, 13, 14, 15,
      16, 17, 18, 19, 20, 21, 22, 23, 24, 25, 26, 27, 28, 29, 30, 31])"
  using unat_word_bits [of w] by (simp add: upt_0_8 upt_0_16 upt_0_32)

lemma bit_u8_high: "8 \<le> n \<Longrightarrow> bit (b :: u8) n = False"
  by (auto dest: bit_imp_le_length)

lemmas field_simps_adts = read_field_def bitstream_def bits_of_byte_def be_value_def
  promote_def bit_simps bit_u8_high

lemma sync_check_iff: "(promote b AND 0xF0) = 0xF0 \<longleftrightarrow> drop_bit 4 b = (0xF :: u8)"
  by (simp add: word_unat_eq_iff [where 'a = 32] word_unat_eq_iff [where 'a = 8]
      unat_c_int_bits unat_u8_bits promote_def bit_simps bit_u8_high)

lemma parse_fields:
  fixes d0 d1 d2 d3 d4 d5 d6 :: u8
  defines "hd7 \<equiv> [d0, d1, d2, d3, d4, d5, d6]"
  shows f_id: "unat (ucast (drop_bit 3 (promote d1) AND 0x01) :: u8) = read_field hd7 12 1"
    and f_layer: "unat (ucast (drop_bit 1 (promote d1) AND 0x03) :: u8) = read_field hd7 13 2"
    and f_pa: "unat (ucast (promote d1 AND 0x01) :: u8) = read_field hd7 15 1"
    and f_profile: "unat (ucast (drop_bit 6 (promote d2) AND 0x03) :: u8) = read_field hd7 16 2"
    and f_sf: "unat (ucast (drop_bit 2 (promote d2) AND 0x0F) :: u8) = read_field hd7 18 4"
    and f_priv: "unat (ucast (drop_bit 1 (promote d2) AND 0x01) :: u8) = read_field hd7 22 1"
    and f_cc: "unat (ucast (push_bit 2 (promote d2 AND 0x01)
                 OR (drop_bit 6 (promote d3) AND 0x03)) :: u8) = read_field hd7 23 3"
    and f_orig: "unat (ucast (drop_bit 5 (promote d3) AND 0x01) :: u8) = read_field hd7 26 1"
    and f_home: "unat (ucast (drop_bit 4 (promote d3) AND 0x01) :: u8) = read_field hd7 27 1"
    and f_cb: "unat (ucast (drop_bit 3 (promote d3) AND 0x01) :: u8) = read_field hd7 28 1"
    and f_cs: "unat (ucast (drop_bit 2 (promote d3) AND 0x01) :: u8) = read_field hd7 29 1"
    and f_fl: "unat (ucast (push_bit 11 (promote d3 AND 0x03) OR push_bit 3 (promote d4)
                 OR (drop_bit 5 (promote d5) AND 0x07)) :: u16) = read_field hd7 30 13"
    and f_bf: "unat (ucast (push_bit 6 (promote d5 AND 0x1F)
                 OR (drop_bit 2 (promote d6) AND 0x3F)) :: u16) = read_field hd7 43 11"
    and f_nrb: "unat (ucast (promote d6 AND 0x03) :: u8) = read_field hd7 54 2"
  unfolding hd7_def
  by (simp_all add: unat_u8_bits unat_u16_bits field_simps_adts numeral_2_eq_2 [symmetric])

lemma parse_adts_header_Cons:
  assumes "parse_adts_header (d0 # d1 # d2 # d3 # d4 # d5 # d6 # rest) = Some h"
  shows "h = \<lparr>
       syncword = 0xFFF,
       id_field = ucast (drop_bit 3 (promote d1) AND 0x01),
       layer = ucast (drop_bit 1 (promote d1) AND 0x03),
       protection_absent = ucast (promote d1 AND 0x01),
       profile = ucast (drop_bit 6 (promote d2) AND 0x03),
       sf_index = ucast (drop_bit 2 (promote d2) AND 0x0F),
       private_bit = ucast (drop_bit 1 (promote d2) AND 0x01),
       channel_config = ucast (push_bit 2 (promote d2 AND 0x01)
                               OR (drop_bit 6 (promote d3) AND 0x03)),
       original = ucast (drop_bit 5 (promote d3) AND 0x01),
       home = ucast (drop_bit 4 (promote d3) AND 0x01),
       copyright_bit = ucast (drop_bit 3 (promote d3) AND 0x01),
       copyright_start = ucast (drop_bit 2 (promote d3) AND 0x01),
       frame_length = ucast (push_bit 11 (promote d3 AND 0x03)
                             OR push_bit 3 (promote d4)
                             OR (drop_bit 5 (promote d5) AND 0x07)),
       buffer_fullness = ucast (push_bit 6 (promote d5 AND 0x1F)
                                OR (drop_bit 2 (promote d6) AND 0x3F)),
       num_raw_blocks = ucast (promote d6 AND 0x03)\<rparr>"
  using assms
  by (auto simp: parse_adts_header_def ADTS_HEADER_SIZE_def split: if_splits)

lemma length_ge_7E:
  assumes "7 \<le> length (data :: 'a list)"
  obtains d0 d1 d2 d3 d4 d5 d6 rest where "data = d0 # d1 # d2 # d3 # d4 # d5 # d6 # rest"
proof -
  from assms obtain d0 r0 where "data = d0 # r0" "6 \<le> length r0" by (cases data) auto
  moreover then obtain d1 r1 where "r0 = d1 # r1" "5 \<le> length r1" by (cases r0) auto
  moreover then obtain d2 r2 where "r1 = d2 # r2" "4 \<le> length r2" by (cases r1) auto
  moreover then obtain d3 r3 where "r2 = d3 # r3" "3 \<le> length r3" by (cases r2) auto
  moreover then obtain d4 r4 where "r3 = d4 # r4" "2 \<le> length r4" by (cases r3) auto
  moreover then obtain d5 r5 where "r4 = d5 # r5" "1 \<le> length r5" by (cases r4) auto
  moreover then obtain d6 r6 where "r5 = d6 # r6" by (cases r5) auto
  ultimately show ?thesis using that by blast
qed

lemma read_sync_bits:
  assumes "d0 = 0xFF" and "drop_bit 4 d1 = (0xF :: u8)"
  shows "read_field [d0, d1, d2, d3, d4, d5, d6] 0 12 = 0xFFF"
proof -
  have "bit d1 (4 + n) = bit (drop_bit 4 d1) n" for n
    by (simp add: bit_simps)
  then have nib: "bit d1 (4 + n) = bit (15 :: u8) n" for n
    by (simp only: assms(2))
  from nib [of 0] nib [of 1] nib [of 2] nib [of 3]
  have "bit d1 4" "bit d1 5" "bit d1 6" "bit d1 7" by simp_all
  then show ?thesis using assms(1) by (simp add: field_simps_adts)
qed

section \<open>The header parser\<close>

text \<open>
  C5. \<open>parse_adts_header\<close> fails exactly when fewer than seven bytes remain or the two
  bytes at the offset are not a byte \<open>0xFF\<close> followed by a byte with top nibble \<open>0xF\<close>.
  No other byte of the header is looked at, so no value of the sampling frequency index
  or of the frame length makes it fail.
\<close>

theorem parse_adts_header_rejects_iff:
  "parse_adts_header data = None \<longleftrightarrow> length data < 7 \<or> \<not> sync_at data 0"
  by (auto simp: parse_adts_header_def ADTS_HEADER_SIZE_def sync_at_def sync_pattern_def
      sync_check_iff)

text \<open>
  A header with the reserved sampling frequency index 15 and frame length 0 is accepted;
  six bytes are rejected, and so is a wrong second byte.
\<close>

theorem parse_adts_header_rejects_iff_witness:
  "parse_adts_header [0xFF, 0xF1, 0x3C, 0x00, 0x00, 0x1F, 0xFC] \<noteq> None
   \<and> parse_adts_header [0xFF, 0xF1, 0x3C, 0x00, 0x00, 0x1F] = None
   \<and> parse_adts_header [0xFF, 0xE1, 0x3C, 0x00, 0x00, 0x1F, 0xFC] = None"
  using parse_adts_header_rejects_iff [of "[0xFF, 0xF1, 0x3C, 0x00, 0x00, 0x1F, 0xFC]"]
    parse_adts_header_rejects_iff [of "[0xFF, 0xF1, 0x3C, 0x00, 0x00, 0x1F]"]
    parse_adts_header_rejects_iff [of "[0xFF, 0xE1, 0x3C, 0x00, 0x00, 0x1F, 0xFC]"]
  by (simp add: sync_at_def sync_pattern_def)

text \<open>
  C4. When \<open>parse_adts_header\<close> succeeds, every field of the record is the big-endian
  bit field of the seven header bytes at the offset and width of the ADTS layout: the
  twelve sync bits, then id (1 bit), layer (2), protection_absent (1), profile (2),
  sampling frequency index (4), private bit (1), channel configuration (3, across
  bytes 2 and 3), original, home, copyright bit and copyright start (1 each), frame
  length (13, across bytes 3 to 5), buffer fullness (11, across bytes 5 and 6) and the
  number of raw data blocks (2).
\<close>

theorem parse_adts_header_fields:
  assumes "parse_adts_header data = Some h"
  shows "read_field (take 7 data) 0 12 = 0xFFF
    \<and> unat (id_field h) = read_field (take 7 data) 12 1
    \<and> unat (layer h) = read_field (take 7 data) 13 2
    \<and> unat (protection_absent h) = read_field (take 7 data) 15 1
    \<and> unat (profile h) = read_field (take 7 data) 16 2
    \<and> unat (sf_index h) = read_field (take 7 data) 18 4
    \<and> unat (private_bit h) = read_field (take 7 data) 22 1
    \<and> unat (channel_config h) = read_field (take 7 data) 23 3
    \<and> unat (original h) = read_field (take 7 data) 26 1
    \<and> unat (home h) = read_field (take 7 data) 27 1
    \<and> unat (copyright_bit h) = read_field (take 7 data) 28 1
    \<and> unat (copyright_start h) = read_field (take 7 data) 29 1
    \<and> unat (frame_length h) = read_field (take 7 data) 30 13
    \<and> unat (buffer_fullness h) = read_field (take 7 data) 43 11
    \<and> unat (num_raw_blocks h) = read_field (take 7 data) 54 2"
proof -
  from assms have len: "7 \<le> length data"
    by (simp add: parse_adts_header_def ADTS_HEADER_SIZE_def split: if_splits)
  then obtain d0 d1 d2 d3 d4 d5 d6 rest
    where data: "data = d0 # d1 # d2 # d3 # d4 # d5 # d6 # rest"
    by (rule length_ge_7E)
  have t7: "take 7 data = [d0, d1, d2, d3, d4, d5, d6]"
    by (simp add: data)
  from assms have "d0 = 0xFF" and "drop_bit 4 d1 = 0xF"
    by (simp_all add: data parse_adts_header_def ADTS_HEADER_SIZE_def sync_check_iff
        split: if_splits)
  then have sync: "read_field [d0, d1, d2, d3, d4, d5, d6] 0 12 = 0xFFF"
    by (rule read_sync_bits)
  note hdr = parse_adts_header_Cons [OF assms [unfolded data]]
  show ?thesis
    unfolding t7 by (subst (1 2 3 4 5 6 7 8 9 10 11 12 13 14) hdr)
      (simp only: adts_header_t.select_convs parse_fields sync simp_thms)
qed

theorem parse_adts_header_fields_witness:
  "parse_adts_header [0xFF, 0xF9, 0x7E, 0xFC, 0x0C, 0x9F, 0xFD] =
     Some \<lparr>syncword = 0xFFF, id_field = 1, layer = 0, protection_absent = 1, profile = 1,
           sf_index = 15, private_bit = 1, channel_config = 3, original = 1, home = 1,
           copyright_bit = 1, copyright_start = 1, frame_length = 100,
           buffer_fullness = 0x7FF, num_raw_blocks = 1\<rparr>
   \<and> read_field [0xFF, 0xF9, 0x7E, 0xFC, 0x0C, 0x9F, 0xFD] 30 13 = 100
   \<and> read_field [0xFF, 0xF9, 0x7E, 0xFC, 0x0C, 0x9F, 0xFD] 43 11 = 0x7FF
   \<and> read_field [0xFF, 0xF9, 0x7E, 0xFC, 0x0C, 0x9F, 0xFD] 23 3 = 3"
proof -
  have p: "parse_adts_header [0xFF, 0xF9, 0x7E, 0xFC, 0x0C, 0x9F, 0xFD] =
     Some \<lparr>syncword = 0xFFF, id_field = 1, layer = 0, protection_absent = 1, profile = 1,
           sf_index = 15, private_bit = 1, channel_config = 3, original = 1, home = 1,
           copyright_bit = 1, copyright_start = 1, frame_length = 100,
           buffer_fullness = 0x7FF, num_raw_blocks = 1\<rparr>"
    by (simp add: parse_adts_header_def ADTS_HEADER_SIZE_def promote_def)
  from parse_adts_header_fields [OF p] show ?thesis
    using p by simp
qed

section \<open>The header artifact\<close>

lemma and_0xFF: "(x :: c_int) AND 0xFF = take_bit 8 x"
  by (simp add: take_bit_eq_mask mask_eq_exp_minus_1)

lemma hi_byte: "ucast (drop_bit 8 (promote16 w) AND 0xFF) = (ucast (drop_bit 8 w) :: u8)"
  unfolding and_0xFF by (rule bit_word_eqI) (auto simp: bit_simps promote16_def)

lemma lo_byte: "ucast (promote16 w AND 0xFF) = (ucast w :: u8)"
  unfolding and_0xFF by (rule bit_word_eqI) (auto simp: bit_simps promote16_def)

lemma un_be16_bytes: "un_be16 (ucast (drop_bit 8 w)) (ucast w) = w"
  by (rule bit_word_eqI) (auto simp: bit_simps un_be16_def)

lemma adts_header_buf_eq: "adts_header_buf buf0 hdr = header_record hdr"
  by (simp add: adts_header_buf_def header_record_def be16_def hi_byte lo_byte upt_0_16)

lemma length_header_record: "length (header_record hdr) = 16"
  by (simp add: header_record_def be16_def)


text \<open>
  C2, as amended. The header artifact is a fixed record of sixteen bytes: the sync
  marker in two bytes, nine single-byte fields (id, layer, protection_absent, profile,
  sampling frequency index, private bit, channel configuration, original, home), the
  frame length and the buffer fullness as two-byte big-endian fields, and one byte for
  the raw-block count. These are all sixteen bytes: there is no reserved byte, and what
  the array held before the assignments does not show.
\<close>

theorem dump_adts_header_layout:
  "adts_header_buf buf0 hdr = header_record hdr
   \<and> length (header_record hdr) = 16
   \<and> dump_adts_header can_open buf0 dir frame hdr =
       (if can_open (Frame_adts_bin dir frame)
        then ([File_written (Frame_adts_bin dir frame) (header_record hdr)], 0)
        else ([Stderr_cannot_create (Frame_adts_bin dir frame)], - 1))"
  by (simp add: adts_header_buf_eq length_header_record dump_adts_header_def dump_binary_def)

theorem dump_adts_header_layout_witness:
  "dump_adts_header always_ok zero_buf ''out'' 0
     \<lparr>syncword = 0xFFF, id_field = 1, layer = 0, protection_absent = 1, profile = 1,
      sf_index = 15, private_bit = 1, channel_config = 3, original = 1, home = 1,
      copyright_bit = 1, copyright_start = 1, frame_length = 100,
      buffer_fullness = 0x7FF, num_raw_blocks = 1\<rparr>
   = ([File_written (Frame_adts_bin ''out'' 0)
        [0x0F, 0xFF, 1, 0, 1, 1, 15, 1, 3, 1, 1, 0x00, 0x64, 0x07, 0xFF, 1]], 0)"
  using dump_adts_header_layout [of zero_buf
     "\<lparr>syncword = 0xFFF, id_field = 1, layer = 0, protection_absent = 1, profile = 1,
      sf_index = 15, private_bit = 1, channel_config = 3, original = 1, home = 1,
      copyright_bit = 1, copyright_start = 1, frame_length = 100,
      buffer_fullness = 0x7FF, num_raw_blocks = 1\<rparr>" always_ok "''out''" 0]
  by (simp add: header_record_def be16_def always_ok_def)

text \<open>
  C2, as stated, counts seventeen bytes: the layout with a reserved byte is one byte
  longer than the record the program writes, whose last byte is the raw-block count.
\<close>

theorem spec_header_record_counterexample:
  "length (adts_header_buf zero_buf
     \<lparr>syncword = 0xFFF, id_field = 1, layer = 0, protection_absent = 1, profile = 1,
      sf_index = 15, private_bit = 1, channel_config = 3, original = 1, home = 1,
      copyright_bit = 1, copyright_start = 1, frame_length = 100,
      buffer_fullness = 0x7FF, num_raw_blocks = 1\<rparr>) = 16
   \<and> length (spec_header_record
     \<lparr>syncword = 0xFFF, id_field = 1, layer = 0, protection_absent = 1, profile = 1,
      sf_index = 15, private_bit = 1, channel_config = 3, original = 1, home = 1,
      copyright_bit = 1, copyright_start = 1, frame_length = 100,
      buffer_fullness = 0x7FF, num_raw_blocks = 1\<rparr> 0) = 17
   \<and> adts_header_buf zero_buf
     \<lparr>syncword = 0xFFF, id_field = 1, layer = 0, protection_absent = 1, profile = 1,
      sf_index = 15, private_bit = 1, channel_config = 3, original = 1, home = 1,
      copyright_bit = 1, copyright_start = 1, frame_length = 100,
      buffer_fullness = 0x7FF, num_raw_blocks = 1\<rparr> ! 15 = 1"
  by (simp add: adts_header_buf_def spec_header_record_def header_record_def be16_def
      upt_0_16 zero_buf_def)

text \<open>
  C1, as amended. For every buffer that \<open>parse_adts_header\<close> accepts, decoding the
  sixteen bytes written for the parsed header gives back the exact value of the sync
  word, id, layer, protection_absent, profile, sampling frequency index, private bit,
  channel configuration, original, home, frame length, buffer fullness and raw-block
  count.
\<close>

theorem header_artifact_roundtrip:
  assumes "parse_adts_header data = Some h"
  shows "decode_header_artifact (adts_header_buf buf0 h) = dumped_fields_of h"
  by (simp add: adts_header_buf_eq header_record_def be16_def decode_header_artifact_def
      dumped_fields_of_def un_be16_bytes)

theorem header_artifact_roundtrip_witness:
  "parse_adts_header [0xFF, 0xF9, 0x7E, 0xFC, 0x0C, 0x9F, 0xFD] =
     Some \<lparr>syncword = 0xFFF, id_field = 1, layer = 0, protection_absent = 1, profile = 1,
           sf_index = 15, private_bit = 1, channel_config = 3, original = 1, home = 1,
           copyright_bit = 1, copyright_start = 1, frame_length = 100,
           buffer_fullness = 0x7FF, num_raw_blocks = 1\<rparr>
   \<and> decode_header_artifact [0x0F, 0xFF, 1, 0, 1, 1, 15, 1, 3, 1, 1, 0x00, 0x64, 0x07, 0xFF, 1] =
     \<lparr>df_syncword = 0xFFF, df_id = 1, df_layer = 0, df_protection_absent = 1,
      df_profile = 1, df_sf_index = 15, df_private_bit = 1, df_channel_config = 3,
      df_original = 1, df_home = 1, df_frame_length = 100, df_buffer_fullness = 0x7FF,
      df_num_raw_blocks = 1\<rparr>"
proof -
  have p: "parse_adts_header [0xFF, 0xF9, 0x7E, 0xFC, 0x0C, 0x9F, 0xFD] =
     Some \<lparr>syncword = 0xFFF, id_field = 1, layer = 0, protection_absent = 1, profile = 1,
           sf_index = 15, private_bit = 1, channel_config = 3, original = 1, home = 1,
           copyright_bit = 1, copyright_start = 1, frame_length = 100,
           buffer_fullness = 0x7FF, num_raw_blocks = 1\<rparr>"
    by (simp add: parse_adts_header_def ADTS_HEADER_SIZE_def promote_def)
  from header_artifact_roundtrip [OF p, of zero_buf] show ?thesis
    using p by (simp add: adts_header_buf_def upt_0_16 zero_buf_def promote16_def dumped_fields_of_def)
qed

text \<open>
  C1, as stated, fails for the copyright bits: two accepted headers that differ in
  copyright_bit and copyright_start give the same sixteen bytes, so neither field can
  be read back from the artifact.
\<close>

theorem copyright_bits_counterexample:
  "parse_adts_header [0xFF, 0xF9, 0x7E, 0xFC, 0x0C, 0x9F, 0xFD] \<noteq> None
   \<and> parse_adts_header [0xFF, 0xF9, 0x7E, 0xF0, 0x0C, 0x9F, 0xFD] \<noteq> None
   \<and> adts_header_buf zero_buf (the (parse_adts_header [0xFF, 0xF9, 0x7E, 0xFC, 0x0C, 0x9F, 0xFD]))
     = adts_header_buf zero_buf (the (parse_adts_header [0xFF, 0xF9, 0x7E, 0xF0, 0x0C, 0x9F, 0xFD]))
   \<and> copyright_bit (the (parse_adts_header [0xFF, 0xF9, 0x7E, 0xFC, 0x0C, 0x9F, 0xFD])) = 1
   \<and> copyright_bit (the (parse_adts_header [0xFF, 0xF9, 0x7E, 0xF0, 0x0C, 0x9F, 0xFD])) = 0
   \<and> copyright_start (the (parse_adts_header [0xFF, 0xF9, 0x7E, 0xFC, 0x0C, 0x9F, 0xFD])) = 1
   \<and> copyright_start (the (parse_adts_header [0xFF, 0xF9, 0x7E, 0xF0, 0x0C, 0x9F, 0xFD])) = 0"
  by (simp add: parse_adts_header_def ADTS_HEADER_SIZE_def promote_def adts_header_buf_def
      upt_0_16 zero_buf_def promote16_def)


section \<open>The sync scanner\<close>

lemma int_of_size_t_small: "i < 2 ^ 31 \<Longrightarrow> int_of_size_t i = int i"
  unfolding int_of_size_t_def
  by (simp add: sint_uint signed_take_bit_int_eq_self unsigned_of_nat take_bit_nat_eq_self)

lemma find_adts_sync_from_cases:
  "(\<exists>k\<ge>i. sync_at data k \<and> (\<forall>j. i \<le> j \<and> j < k \<longrightarrow> \<not> sync_at data j)
       \<and> find_adts_sync_from data i = int_of_size_t k)
   \<or> ((\<forall>j\<ge>i. \<not> sync_at data j) \<and> find_adts_sync_from data i = - 1)"
proof (induction data i rule: find_adts_sync_from.induct)
  case (1 data i)
  show ?case
  proof (cases "i + 1 < length data")
    case False
    then have "\<forall>j\<ge>i. \<not> sync_at data j" by (auto simp: sync_at_def)
    moreover from False have "find_adts_sync_from data i = - 1"
      by (simp add: find_adts_sync_from.simps [of data i])
    ultimately show ?thesis by blast
  next
    case True
    show ?thesis
    proof (cases "sync_at data i")
      case s: True
      then have "find_adts_sync_from data i = int_of_size_t i"
        using True by (simp add: find_adts_sync_from.simps [of data i] sync_at_def sync_pattern_def sync_check_iff)
      with s show ?thesis by auto
    next
      case n: False
      then have step: "find_adts_sync_from data i = find_adts_sync_from data (i + 1)"
        using True by (auto simp add: find_adts_sync_from.simps [of data i] sync_at_def sync_pattern_def sync_check_iff)
      from n True have "\<not> (data ! i = 0xFF \<and> (promote (data ! (i + 1)) AND 0xF0) = 0xF0)"
        by (simp add: sync_at_def sync_pattern_def sync_check_iff)
      from "1.IH" [OF True this]
      show ?thesis
      proof
        assume "\<exists>k\<ge>i + 1. sync_at data k \<and> (\<forall>j. i + 1 \<le> j \<and> j < k \<longrightarrow> \<not> sync_at data j)
           \<and> find_adts_sync_from data (i + 1) = int_of_size_t k"
        then obtain k where k: "i + 1 \<le> k" "sync_at data k"
          "\<forall>j. i + 1 \<le> j \<and> j < k \<longrightarrow> \<not> sync_at data j"
          "find_adts_sync_from data (i + 1) = int_of_size_t k" by blast
        have "\<forall>j. i \<le> j \<and> j < k \<longrightarrow> \<not> sync_at data j"
        proof (intro allI impI)
          fix j assume "i \<le> j \<and> j < k"
          then show "\<not> sync_at data j" using n k(3) by (cases "j = i") auto
        qed
        with k step show ?thesis by (intro disjI1 exI [of _ k]) auto
      next
        assume a: "(\<forall>j\<ge>i + 1. \<not> sync_at data j) \<and> find_adts_sync_from data (i + 1) = - 1"
        have "\<forall>j\<ge>i. \<not> sync_at data j"
        proof (intro allI impI)
          fix j assume "i \<le> j"
          then show "\<not> sync_at data j" using n a by (cases "j = i") auto
        qed
        with a step show ?thesis by auto
      qed
    qed
  qed
qed

lemma sync_at_drop: "sync_at (drop s buffer) i = sync_at buffer (s + i)"
  by (cases "s \<le> length buffer") (auto simp: sync_at_def)

lemma find_after_zeros:
  "find_adts_sync (replicate n 0 @ [0xFF, 0xF0]) = int_of_size_t n"
proof -
  let ?d = "replicate n 0 @ [0xFF, 0xF0 :: u8]"
  have at: "sync_at ?d n"
    by (simp add: sync_at_def sync_pattern_def nth_append)
  have before: "\<not> sync_at ?d j" if "j < n" for j
    using that by (simp add: sync_at_def sync_pattern_def nth_append)
  from find_adts_sync_from_cases [of 0 ?d] at
  obtain k where k: "sync_at ?d k" "\<forall>j. j < k \<longrightarrow> \<not> sync_at ?d j"
    "find_adts_sync_from ?d 0 = int_of_size_t k" by auto
  have "k = n"
  proof (rule ccontr)
    assume "k \<noteq> n"
    then consider "k < n" | "n < k" by linarith
    then show False using k(1,2) at before by cases auto
  qed
  with k(3) show ?thesis by (simp add: find_adts_sync_def)
qed

lemma sync_after_zeros: "sync_at (replicate n 0 @ [0xFF, 0xF0]) n"
  by (simp add: sync_at_def sync_pattern_def nth_append)

text \<open>
  What the scanner does for every buffer and every search range: it returns \<open>-1\<close> when
  the range has no sync pattern, and the lowest index of a sync pattern (counted from
  the start of the range) whenever that index is below \<open>2 ^ 31\<close>.
\<close>

lemma find_adts_sync_lowest:
  "((\<forall>i. \<not> sync_at buffer (start + i)) \<longrightarrow> find_adts_sync (drop start buffer) = - 1)
   \<and> (\<forall>i. sync_at buffer (start + i) \<and> (\<forall>j<i. \<not> sync_at buffer (start + j)) \<and> i < 2 ^ 31
          \<longrightarrow> find_adts_sync (drop start buffer) = int i)"
proof -
  let ?d = "drop start buffer"
  let ?r = "find_adts_sync ?d"
  from find_adts_sync_from_cases [of 0 ?d]
  consider (found) k where "sync_at ?d k" "\<forall>j<k. \<not> sync_at ?d j" "?r = int_of_size_t k"
    | (none) "\<forall>j. \<not> sync_at ?d j" "?r = - 1"
    by (auto simp: find_adts_sync_def)
  then show ?thesis
  proof cases
    case found
    have uniq: "i = k" if "sync_at ?d i" "\<forall>j<i. \<not> sync_at ?d j" for i
    proof (rule ccontr)
      assume "i \<noteq> k"
      then consider "i < k" | "k < i" by linarith
      then show False using found(1,2) that by cases auto
    qed
    have c1: "(\<forall>i. \<not> sync_at buffer (start + i)) \<longrightarrow> ?r = - 1"
      using found(1) by (simp only: sync_at_drop) blast
    have c2: "\<forall>i. sync_at buffer (start + i) \<and> (\<forall>j<i. \<not> sync_at buffer (start + j))
                \<and> i < 2 ^ 31 \<longrightarrow> ?r = int i"
    proof (intro allI impI)
      fix i assume a: "sync_at buffer (start + i) \<and> (\<forall>j<i. \<not> sync_at buffer (start + j))
                \<and> i < 2 ^ 31"
      then have "sync_at ?d i" "\<forall>j<i. \<not> sync_at ?d j"
        by (simp_all add: sync_at_drop)
      then have "i = k" by (rule uniq)
      moreover from a have "int_of_size_t i = int i" by (intro int_of_size_t_small) simp
      ultimately show "?r = int i" by (simp only: found(3))
    qed
    from c1 c2 show ?thesis by blast
  next
    case none
    have c1: "(\<forall>i. \<not> sync_at buffer (start + i)) \<longrightarrow> ?r = - 1"
      using none(2) by blast
    have c2: "\<forall>i. sync_at buffer (start + i) \<and> (\<forall>j<i. \<not> sync_at buffer (start + j))
                \<and> i < 2 ^ 31 \<longrightarrow> ?r = int i"
      using none(1) by (simp only: sync_at_drop) blast
    from c1 c2 show ?thesis by blast
  qed
qed

text \<open>
  C3, at an input where the program departs from it. The scanner returns \<^verbatim>\<open>(int)i\<close> for
  a \<^verbatim>\<open>size_t\<close> index. In a file of \<open>2 ^ 31\<close> zero bytes followed by \<open>0xFF\<close>, \<open>0xF0\<close> the
  lowest sync pattern is at index \<open>2 ^ 31\<close>; the scanner returns \<open>- 2 ^ 31\<close>, which is
  neither that index nor \<open>-1\<close>, and \<^verbatim>\<open>main\<close> ends with the message that no sync word was
  found.
\<close>

theorem find_adts_sync_narrows_index:
  "sync_at late_sync_file 2147483648
   \<and> find_adts_sync late_sync_file = - 2147483648
   \<and> faad2_debug_main example_env 3 0 ''out'' (Loaded late_sync_file)
       = Inr (1, [Stderr_no_sync])"
proof -
  have i: "int_of_size_t 2147483648 = - 2147483648"
    by (simp add: int_of_size_t_def)
  have f: "find_adts_sync late_sync_file = - 2147483648"
    unfolding late_sync_file_def by (simp only: find_after_zeros i)
  have s: "sync_at late_sync_file 2147483648"
    unfolding late_sync_file_def by (rule sync_after_zeros)
  have m: "faad2_debug_main example_env 3 0 ''out'' (Loaded late_sync_file)
       = Inr (1, [Stderr_no_sync])"
    by (simp add: faad2_debug_main_def f)
  from s f m show ?thesis by blast
qed

section \<open>The decode loop\<close>

lemma ulong_of_int_promote: "ulong_of_int (promote b) = ucast b"
  unfolding ulong_of_int_def promote_def
  by (rule bit_word_eqI) (auto simp: bit_simps min_def dest: bit_imp_le_length)


lemma fst_dump_adts_header:
  "fst (dump_adts_header ok buf0 dir n h) =
    (if ok (Frame_adts_bin dir n) then [File_written (Frame_adts_bin dir n) (header_record h)]
     else [Stderr_cannot_create (Frame_adts_bin dir n)])"
  by (simp add: dump_adts_header_def dump_binary_def adts_header_buf_eq length_header_record)

lemma fst_dump_pcm:
  "fst (dump_pcm ok dir n buf k c fmt) =
    (if ok (Frame_pcm_bin dir n)
     then [File_written (Frame_pcm_bin dir n)
             (take (unat (k * ulong_of_int c * sample_size fmt)) buf)]
     else [Stderr_cannot_create (Frame_pcm_bin dir n)])"
  by (simp add: dump_pcm_def dump_binary_def)

lemma loop_body_progress:
  "loop_body e fd dir s = Continue s' \<Longrightarrow> pos s < pos s'"
  by (auto simp: loop_body_def Let_def ADTS_HEADER_SIZE_def
      split: if_splits option.splits prod.splits)

lemma decode_loop_stop:
  "\<not> (pos s < length fd \<and> frame_num s < mf) \<Longrightarrow> decode_loop e fd mf dir s = Inr s"
  by (subst decode_loop.simps) auto

lemma decode_loop_step:
  "pos s < length fd \<Longrightarrow> frame_num s < mf \<Longrightarrow>
    decode_loop e fd mf dir s =
      (case loop_body e fd dir s of
         Break \<Rightarrow> Inr s
       | Continue s' \<Rightarrow> decode_loop e fd mf dir s'
       | Trap f evs \<Rightarrow> Inl (f, evs))"
  by (subst decode_loop.simps) simp

lemma decode_loop_fuel_stop:
  "\<not> (pos s < length fd \<and> frame_num s < mf) \<Longrightarrow> decode_loop_fuel n e fd mf dir s = Some (Inr s)"
  by (subst decode_loop_fuel.simps) auto

lemma decode_loop_fuel_step:
  "pos s < length fd \<Longrightarrow> frame_num s < mf \<Longrightarrow>
    decode_loop_fuel (Suc n) e fd mf dir s =
      (case loop_body e fd dir s of
         Break \<Rightarrow> Some (Inr s)
       | Continue s' \<Rightarrow> decode_loop_fuel n e fd mf dir s'
       | Trap f evs \<Rightarrow> Some (Inl (f, evs)))"
  by (subst decode_loop_fuel.simps) simp

lemma decode_loop_induct_rule [consumes 1, case_names stop step]:
  assumes init: "I s"
    and stop: "\<And>s. I s \<Longrightarrow> \<not> (pos s < length fd \<and> frame_num s < mf) \<Longrightarrow> Q s (Inr s)"
    and step: "\<And>s. I s \<Longrightarrow> pos s < length fd \<Longrightarrow> frame_num s < mf \<Longrightarrow>
        (case loop_body e fd dir s of
           Break \<Rightarrow> Q s (Inr s)
         | Continue s' \<Rightarrow> I s' \<and> (\<forall>r. Q s' r \<longrightarrow> Q s r)
         | Trap f evs \<Rightarrow> Q s (Inl (f, evs)))"
  shows "Q s (decode_loop e fd mf dir s)"
  using init
proof (induction "length fd - pos s" arbitrary: s rule: less_induct)
  case less
  show ?case
  proof (cases "pos s < length fd \<and> frame_num s < mf")
    case False
    from stop [OF less.prems False] show ?thesis
      by (simp only: decode_loop_stop [OF False])
  next
    case True
    then have c: "pos s < length fd" "frame_num s < mf" by simp_all
    note st = step [OF less.prems c]
    show ?thesis
    proof (cases "loop_body e fd dir s")
      case Break
      with c st show ?thesis by (simp add: decode_loop_step)
    next
      case (Continue s')
      with st have "I s'" and imp: "\<And>r. Q s' r \<Longrightarrow> Q s r" by simp_all
      from Continue have "pos s < pos s'" by (rule loop_body_progress)
      with c have "length fd - pos s' < length fd - pos s" by simp
      from less.hyps [OF this \<open>I s'\<close>] have "Q s' (decode_loop e fd mf dir s')" .
      then have "Q s (decode_loop e fd mf dir s')" by (rule imp)
      with c Continue show ?thesis by (simp add: decode_loop_step)
    next
      case (Trap f evs)
      with c st show ?thesis by (simp add: decode_loop_step)
    qed
  qed
qed

lemma decode_loop_fuel_enough:
  "length fd - pos s \<le> n \<Longrightarrow>
    decode_loop_fuel n e fd mf dir s = Some (decode_loop e fd mf dir s)"
proof (induction n arbitrary: s)
  case 0
  then have n: "\<not> (pos s < length fd \<and> frame_num s < mf)" by simp
  show ?case by (simp only: decode_loop_fuel_stop [OF n] decode_loop_stop [OF n])
next
  case (Suc n)
  show ?case
  proof (cases "pos s < length fd \<and> frame_num s < mf")
    case False
    show ?thesis by (simp only: decode_loop_fuel_stop [OF False] decode_loop_stop [OF False])
  next
    case True
    then have c: "pos s < length fd" "frame_num s < mf" by simp_all
    show ?thesis
    proof (cases "loop_body e fd dir s")
      case Break
      with c show ?thesis by (simp add: decode_loop_fuel_step decode_loop_step)
    next
      case (Continue s')
      then have "pos s < pos s'" by (rule loop_body_progress)
      with Suc.prems have "length fd - pos s' \<le> n" by simp
      from Suc.IH [OF this] c Continue show ?thesis
        by (simp add: decode_loop_fuel_step decode_loop_step)
    next
      case (Trap f evs)
      with c show ?thesis by (simp add: decode_loop_fuel_step decode_loop_step)
    qed
  qed
qed

section \<open>The example run, step by step\<close>

lemma example_drop_1:
  "drop (Suc 0) example_file = [0xFF, 0xF1, 0x50, 0x80, 0x00, 0xFF, 0xFC, 0xFF, 0xF1, 0x00]"
  by (simp add: example_file_def)

lemma example_drop_8: "drop 8 example_file = [0xFF, 0xF1, 0x00]"
  by (simp add: example_file_def)

lemma example_drop_9: "drop 9 example_file = [0xF1, 0x00]"
  by (simp add: example_file_def)

lemma example_find_0: "find_adts_sync example_file = 1"
  by (simp add: example_file_def find_adts_sync_def find_adts_sync_from.simps promote_def
      int_of_size_t_def)

lemma example_find_1:
  "find_adts_sync [0xFF, 0xF1, 0x50, 0x80, 0x00, 0xFF, 0xFC, 0xFF, 0xF1, 0x00] = 0"
  by (simp add: find_adts_sync_def find_adts_sync_from.simps promote_def int_of_size_t_def)

lemma example_find_8: "find_adts_sync [0xFF, 0xF1, 0x00] = 0"
  by (simp add: find_adts_sync_def find_adts_sync_from.simps promote_def int_of_size_t_def)

lemma example_find_9: "find_adts_sync [0xF1, 0x00] = - 1"
  by (simp add: find_adts_sync_def find_adts_sync_from.simps promote_def int_of_size_t_def)

lemma example_parse_1:
  "parse_adts_header [0xFF, 0xF1, 0x50, 0x80, 0x00, 0xFF, 0xFC, 0xFF, 0xF1, 0x00] =
     Some \<lparr>syncword = 0xFFF, id_field = 0, layer = 0, protection_absent = 1, profile = 1,
           sf_index = 4, private_bit = 0, channel_config = 2, original = 0, home = 0,
           copyright_bit = 0, copyright_start = 0, frame_length = 7,
           buffer_fullness = 0x7FF, num_raw_blocks = 0\<rparr>"
  by (simp add: parse_adts_header_def ADTS_HEADER_SIZE_def promote_def)

lemma example_parse_8: "parse_adts_header [0xFF, 0xF1, 0x00] = None"
  by (simp add: parse_adts_header_def ADTS_HEADER_SIZE_def)

lemma example_length: "length example_file = 11"
  by (simp add: example_file_def)

lemma example_env_fields:
  "NeAACDecOpen example_env = Some ()"
  "NeAACDecSetConfiguration example_env d fmt dm = d"
  "NeAACDecInit example_env d buffer = (0, 44100, 2, d)"
  "fopen_ok example_env p = True"
  by (simp_all add: example_env_def always_ok_def)

lemma example_body_1:
  "loop_body example_env example_file ''out''
     \<lparr>pos = Suc 0, frame_num = 0, total_samples = ts, decoder = (), events = evs\<rparr> =
   Continue \<lparr>pos = 8, frame_num = 1, total_samples = ts + 2, decoder = (),
     events = evs @
       [File_written (Frame_adts_bin ''out'' 0)
          [0x0F, 0xFF, 0, 0, 1, 1, 4, 0, 2, 0, 0, 0, 7, 7, 0xFF, 0],
        Call_NeAACDecDecode 1,
        File_written (Frame_pcm_bin ''out'' 0) [1, 2, 3, 4, 5, 6, 7, 8],
        Stdout_frame 0 5 2]\<rparr>"
  by (simp add: loop_body_def Let_def example_env_def example_drop_1 example_find_1
      example_parse_1 ADTS_HEADER_SIZE_def fst_dump_adts_header fst_dump_pcm header_record_def
      be16_def always_ok_def example_file_def ulong_of_int_promote)

lemma example_body_8:
  "loop_body example_env example_file ''out''
     \<lparr>pos = 8, frame_num = 1, total_samples = ts, decoder = (), events = evs\<rparr> =
   Continue \<lparr>pos = 9, frame_num = 1, total_samples = ts, decoder = (),
     events = evs @ [Stderr_invalid_header 1]\<rparr>"
  by (simp add: loop_body_def example_drop_8 example_find_8 example_parse_8)

lemma example_body_9:
  "loop_body example_env example_file ''out''
     \<lparr>pos = 9, frame_num = 1, total_samples = ts, decoder = (), events = evs\<rparr> = Break"
  by (simp add: loop_body_def example_drop_9 example_find_9)

lemma example_loop:
  "decode_loop example_env example_file 5 ''out''
     \<lparr>pos = Suc 0, frame_num = 0, total_samples = 0, decoder = (), events = evs\<rparr> =
   Inr \<lparr>pos = 9, frame_num = 1, total_samples = 2, decoder = (),
     events = evs @
       [File_written (Frame_adts_bin ''out'' 0)
          [0x0F, 0xFF, 0, 0, 1, 1, 4, 0, 2, 0, 0, 0, 7, 7, 0xFF, 0],
        Call_NeAACDecDecode 1,
        File_written (Frame_pcm_bin ''out'' 0) [1, 2, 3, 4, 5, 6, 7, 8],
        Stdout_frame 0 5 2,
        Stderr_invalid_header 1]\<rparr>"
  by (simp add: decode_loop_step example_body_1 example_body_8 example_body_9 example_length)

lemma example_main:
  "faad2_debug_main example_env 4 5 ''out'' (Loaded example_file) =
     Inr (0, [Stderr_skipped 1, Call_NeAACDecInit 1, Stdout_initialized 44100 2,
              Stdout_output_dir ''out'',
              File_written (Frame_adts_bin ''out'' 0)
                [0x0F, 0xFF, 0, 0, 1, 1, 4, 0, 2, 0, 0, 0, 7, 7, 0xFF, 0],
              Call_NeAACDecDecode 1,
              File_written (Frame_pcm_bin ''out'' 0) [1, 2, 3, 4, 5, 6, 7, 8],
              Stdout_frame 0 5 2,
              Stderr_invalid_header 1,
              Info_written (Info_json ''out'')
                \<lparr>js_sample_rate = 44100, js_channels = 2, js_total_frames = 1,
                 js_total_samples = 2, js_format = ''int16''\<rparr>,
              Stdout_decoded 1 2, Call_NeAACDecClose])"
  by (simp add: faad2_debug_main_def example_find_0 example_loop write_info_json_def
      example_env_fields)

section \<open>The sync prefix of the header artifacts\<close>

lemma parse_adts_header_syncword: "parse_adts_header data = Some h \<Longrightarrow> syncword h = 0xFFF"
  by (auto simp: parse_adts_header_def split: if_splits)

lemma take_2_header_record:
  "syncword h = 0xFFF \<Longrightarrow> take 2 (header_record h) = [0x0F, 0xFF]"
  by (simp add: header_record_def be16_def)

lemma loop_body_good_Continue:
  "loop_body e fd dir s = Continue s' \<Longrightarrow> list_all good_adts_event (events s)
     \<Longrightarrow> list_all good_adts_event (events s')"
  by (auto simp: loop_body_def Let_def fst_dump_adts_header fst_dump_pcm
      length_header_record take_2_header_record parse_adts_header_syncword
      split: if_splits option.splits prod.splits)

lemma loop_body_good_Trap:
  "loop_body e fd dir s = Trap f evs \<Longrightarrow> list_all good_adts_event (events s)
     \<Longrightarrow> list_all good_adts_event evs"
  by (auto simp: loop_body_def Let_def fst_dump_adts_header fst_dump_pcm
      length_header_record take_2_header_record parse_adts_header_syncword
      split: if_splits option.splits prod.splits)

lemma decode_loop_good:
  assumes "list_all good_adts_event (events s)"
  shows "case decode_loop e fd mf dir s of
           Inl (f, evs) \<Rightarrow> list_all good_adts_event evs
         | Inr t \<Rightarrow> list_all good_adts_event (events t)"
  using assms
proof (induction rule: decode_loop_induct_rule
    [where I = "\<lambda>s. list_all good_adts_event (events s)"
       and Q = "\<lambda>s r. case r of Inl (f, evs) \<Rightarrow> list_all good_adts_event evs
                        | Inr t \<Rightarrow> list_all good_adts_event (events t)"])
  case (stop s)
  then show ?case by simp
next
  case (step s)
  then show ?case
    by (auto split: step.splits dest: loop_body_good_Continue loop_body_good_Trap)
qed


lemma main_cases [case_names early loop]:
  obtains (early) evs where
      "faad2_debug_main e argc argv3 dir input = Inr (1, evs)"
      "list_all (\<lambda>ev. \<not> is_loop_event ev) evs"
    | (loop) fd d0 bc sr ch d2 where
      "3 \<le> argc" "input = Loaded fd" "0 \<le> find_adts_sync fd" "NeAACDecOpen e = Some d0"
      "NeAACDecInit e (NeAACDecSetConfiguration e d0 FAAD_FMT_16BIT 0)
         (drop (nat (find_adts_sync fd)) fd) = (bc, sr, ch, d2)"
      "0 \<le> bc"
      "faad2_debug_main e argc argv3 dir input =
         (case decode_loop e fd (if 3 < argc then argv3 else INT32_MAX) dir
                 (main_loop_start (find_adts_sync fd) sr ch d2 dir) of
            Inl killed \<Rightarrow> Inl killed
          | Inr s \<Rightarrow>
              Inr (0, events s
                     @ fst (write_info_json (fopen_ok e) dir sr ch (frame_num s)
                              (total_samples s))
                     @ [Stdout_decoded (frame_num s) (total_samples s), Call_NeAACDecClose]))"
proof (cases "argc < 3")
  case True
  then have "faad2_debug_main e argc argv3 dir input = Inr (1, [Stderr_usage])"
    by (simp add: faad2_debug_main_def Let_def)
  then show ?thesis by (rule early) simp
next
  case argc: False
  show ?thesis
  proof (cases input)
    case Cannot_open
    with argc have "faad2_debug_main e argc argv3 dir input = Inr (1, [Stderr_cannot_open])"
      by (simp add: faad2_debug_main_def Let_def)
    then show ?thesis by (rule early) simp
  next
    case Out_of_memory
    with argc have "faad2_debug_main e argc argv3 dir input = Inr (1, [Stderr_out_of_memory])"
      by (simp add: faad2_debug_main_def Let_def)
    then show ?thesis by (rule early) simp
  next
    case Cannot_read
    with argc have "faad2_debug_main e argc argv3 dir input = Inr (1, [Stderr_cannot_read])"
      by (simp add: faad2_debug_main_def Let_def)
    then show ?thesis by (rule early) simp
  next
    case (Loaded fd)
    show ?thesis
    proof (cases "find_adts_sync fd < 0")
      case True
      with argc Loaded
      have "faad2_debug_main e argc argv3 dir input = Inr (1, [Stderr_no_sync])"
        by (simp add: faad2_debug_main_def Let_def)
      then show ?thesis by (rule early) simp
    next
      case sync: False
      show ?thesis
      proof (cases "NeAACDecOpen e")
        case None
        with argc Loaded sync
        have "faad2_debug_main e argc argv3 dir input =
            Inr (1, (if find_adts_sync fd > 0 then [Stderr_skipped (find_adts_sync fd)] else [])
                    @ [Stderr_no_decoder])"
          by (simp add: faad2_debug_main_def Let_def)
        then show ?thesis by (rule early) simp
      next
        case (Some d0)
        obtain bc sr ch d2 where init:
          "NeAACDecInit e (NeAACDecSetConfiguration e d0 FAAD_FMT_16BIT 0)
             (drop (nat (find_adts_sync fd)) fd) = (bc, sr, ch, d2)"
          by (metis prod_cases4)
        show ?thesis
        proof (cases "bc < 0")
          case True
          with argc Loaded sync Some init
          have "faad2_debug_main e argc argv3 dir input =
              Inr (1, ((if find_adts_sync fd > 0 then [Stderr_skipped (find_adts_sync fd)] else [])
                       @ [Call_NeAACDecInit (nat (find_adts_sync fd))])
                      @ [Stderr_init_failed, Call_NeAACDecClose])"
            by (simp add: faad2_debug_main_def Let_def)
          then show ?thesis by (rule early) simp
        next
          case False
          with argc Loaded sync Some init
          have "faad2_debug_main e argc argv3 dir input =
             (case decode_loop e fd (if 3 < argc then argv3 else INT32_MAX) dir
                     (main_loop_start (find_adts_sync fd) sr ch d2 dir) of
                Inl killed \<Rightarrow> Inl killed
              | Inr s \<Rightarrow>
                  Inr (0, events s
                         @ fst (write_info_json (fopen_ok e) dir sr ch (frame_num s)
                                  (total_samples s))
                         @ [Stdout_decoded (frame_num s) (total_samples s), Call_NeAACDecClose]))"
            by (simp add: faad2_debug_main_def main_loop_start_def Let_def)
          with argc Loaded sync Some init False show ?thesis
            by (intro loop [of fd d0 bc sr ch d2]) simp_all
        qed
      qed
    qed
  qed
qed

lemma not_loop_event_good: "\<not> is_loop_event ev \<Longrightarrow> good_adts_event ev"
  by (cases ev) simp_all

lemma main_events_good:
  "list_all good_adts_event (run_events (faad2_debug_main e argc argv3 dir input))"
proof (cases e argc argv3 dir input rule: main_cases)
  case (early evs)
  then show ?thesis by (auto simp: list_all_iff not_loop_event_good)
next
  case (loop fd d0 bc sr ch d2)
  let ?s0 = "main_loop_start (find_adts_sync fd) sr ch d2 dir"
  have "list_all good_adts_event (events ?s0)"
    by (simp add: main_loop_start_def)
  from decode_loop_good [OF this, of e fd "if 3 < argc then argv3 else INT32_MAX" dir]
  show ?thesis
    by (auto simp: loop(7) write_info_json_def split: sum.splits)
qed

text \<open>
  C9. In every run, however it ends, each header artifact
  \<^verbatim>\<open>frame_<NNNN>_adts.bin\<close> that is written has sixteen bytes and starts with the two
  bytes \<open>0x0F\<close> and \<open>0xFF\<close>: the parser stores the constant \<open>0x0FFF\<close> as sync word, not
  the bytes of the stream, and the writer puts it first, high byte first.
\<close>

theorem header_artifact_sync_prefix:
  "(File_written (Frame_adts_bin d n) bs
       \<in> set (run_events (faad2_debug_main e argc argv3 dir input))
     \<longrightarrow> length bs = 16 \<and> take 2 bs = [0x0F, 0xFF])
   \<and> (parse_adts_header data = Some h
     \<longrightarrow> syncword h = 0xFFF \<and> take 2 (adts_header_buf buf0 h) = [0x0F, 0xFF])"
proof -
  have "good_adts_event ev"
    if "ev \<in> set (run_events (faad2_debug_main e argc argv3 dir input))" for ev
    using that main_events_good [of e argc argv3 dir input] by (simp add: list_all_iff)
  from this [of "File_written (Frame_adts_bin d n) bs"] show ?thesis
    by (auto simp: adts_header_buf_eq take_2_header_record parse_adts_header_syncword)
qed

theorem header_artifact_sync_prefix_witness:
  "File_written (Frame_adts_bin ''out'' 0)
      [0x0F, 0xFF, 0, 0, 1, 1, 4, 0, 2, 0, 0, 0, 7, 7, 0xFF, 0]
     \<in> set (run_events (faad2_debug_main example_env 4 5 ''out'' (Loaded example_file)))
   \<and> take 2 [0x0F, 0xFF, 0, 0, 1, 1, 4, 0, 2, 0, 0, 0, 7, 7, 0xFF, 0 :: u8] = [0x0F, 0xFF]
   \<and> parse_adts_header [0xFF, 0xF1, 0x50, 0x80, 0x00, 0xFF, 0xFC, 0xFF, 0xF1, 0x00] =
     Some \<lparr>syncword = 0xFFF, id_field = 0, layer = 0, protection_absent = 1, profile = 1,
           sf_index = 4, private_bit = 0, channel_config = 2, original = 0, home = 0,
           copyright_bit = 0, copyright_start = 0, frame_length = 7,
           buffer_fullness = 0x7FF, num_raw_blocks = 0\<rparr>"
  using header_artifact_sync_prefix
    [of "''out''" 0 "[0x0F, 0xFF, 0, 0, 1, 1, 4, 0, 2, 0, 0, 0, 7, 7, 0xFF, 0]"
        example_env 4 5 "''out''" "Loaded example_file"
        "[0xFF, 0xF1, 0x50, 0x80, 0x00, 0xFF, 0xFC, 0xFF, 0xF1, 0x00]"
        "\<lparr>syncword = 0xFFF, id_field = 0, layer = 0, protection_absent = 1, profile = 1,
           sf_index = 4, private_bit = 0, channel_config = 2, original = 0, home = 0,
           copyright_bit = 0, copyright_start = 0, frame_length = 7,
           buffer_fullness = 0x7FF, num_raw_blocks = 0\<rparr>" zero_buf]
  by (simp add: example_main example_parse_1)

section \<open>Frame counting\<close>

lemma loop_body_frames_counted:
  "loop_body e fd dir s = Continue s' \<Longrightarrow> frames_counted s \<Longrightarrow> frames_counted s'"
  by (auto simp: frames_counted_def loop_body_def Let_def fst_dump_adts_header fst_dump_pcm
      split: if_splits option.splits prod.splits)

lemma decode_loop_frames_counted:
  assumes "frames_counted s"
  shows "case decode_loop e fd mf dir s of Inl killed \<Rightarrow> True | Inr t \<Rightarrow> frames_counted t"
  using assms
proof (induction rule: decode_loop_induct_rule
    [where I = frames_counted
       and Q = "\<lambda>s r. case r of Inl killed \<Rightarrow> True | Inr t \<Rightarrow> frames_counted t"])
  case (stop s)
  then show ?case by simp
next
  case (step s)
  then show ?case by (auto split: step.splits dest: loop_body_frames_counted)
qed

lemma main_total_frames:
  assumes run: "faad2_debug_main e argc argv3 dir input = Inr (status, evs)"
    and info: "Info_written p js \<in> set evs"
  shows "js_total_frames js = int (length (filter is_decode_call evs))
    \<and> js_total_frames js = int (length (filter is_decode_error evs))
                              + int (length (filter is_frame_line evs))"
proof (cases e argc argv3 dir input rule: main_cases)
  case (early evs')
  with run have "list_all (\<lambda>ev. \<not> is_loop_event ev) evs" by simp
  with info show ?thesis by (auto simp: list_all_iff)
next
  case (loop fd d0 bc sr ch d2)
  let ?s0 = "main_loop_start (find_adts_sync fd) sr ch d2 dir"
  let ?mf = "if 3 < argc then argv3 else INT32_MAX"
  have "frames_counted ?s0"
    by (simp add: frames_counted_def main_loop_start_def)
  note inv = decode_loop_frames_counted [OF this, of e fd ?mf dir]
  from run loop(7) obtain t where t: "decode_loop e fd ?mf dir ?s0 = Inr t"
    and evs: "evs = events t
        @ fst (write_info_json (fopen_ok e) dir sr ch (frame_num t) (total_samples t))
        @ [Stdout_decoded (frame_num t) (total_samples t), Call_NeAACDecClose]"
    by (auto split: sum.splits)
  from inv t have c: "frames_counted t" by simp
  then have "Info_written p js \<notin> set (events t)"
    by (auto simp: frames_counted_def filter_empty_conv)
  with info evs have "js_total_frames js = frame_num t"
    by (auto simp: write_info_json_def split: if_splits)
  with c show ?thesis
    by (simp add: frames_counted_def evs write_info_json_def)
qed

lemma loop_body_Break_iff:
  "loop_body e fd dir s = Break \<longleftrightarrow> find_adts_sync (drop (pos s) fd) < 0"
  by (auto simp: loop_body_def Let_def split: if_splits option.splits prod.splits)

lemma loop_body_rejected:
  assumes "0 \<le> find_adts_sync (drop (pos s) fd)"
    and "\<not> valid_frame_at fd (next_candidate fd (pos s))"
  shows "\<exists>s'. loop_body e fd dir s = Continue s'
      \<and> pos s' = next_candidate fd (pos s) + 1 \<and> frame_num s' = frame_num s
      \<and> total_samples s' = total_samples s"
  using assms
  by (auto simp: loop_body_def Let_def valid_frame_at_def next_candidate_def
      ADTS_HEADER_SIZE_def split: option.splits)

lemma loop_body_trap:
  assumes "0 \<le> find_adts_sync (drop (pos s) fd)"
    and "valid_frame_at fd (next_candidate fd (pos s))"
    and "divides_by_zero e (decoder s) (drop (next_candidate fd (pos s)) fd)"
  shows "\<exists>evs. loop_body e fd dir s = Trap Division_by_zero evs"
  using assms
  by (auto simp: loop_body_def Let_def valid_frame_at_def next_candidate_def
      divides_by_zero_def ADTS_HEADER_SIZE_def split: option.splits prod.splits)

lemma loop_body_frame:
  assumes "0 \<le> find_adts_sync (drop (pos s) fd)"
    and "valid_frame_at fd (next_candidate fd (pos s))"
    and "\<not> divides_by_zero e (decoder s) (drop (next_candidate fd (pos s)) fd)"
  shows "\<exists>s'. loop_body e fd dir s = Continue s'
      \<and> pos s' = next_candidate fd (pos s) + frame_length_at fd (next_candidate fd (pos s))
      \<and> 7 \<le> frame_length_at fd (next_candidate fd (pos s))
      \<and> pos s' \<le> length fd
      \<and> frame_num s' = frame_num s + 1"
  using assms
  by (auto simp: loop_body_def Let_def valid_frame_at_def next_candidate_def
      frame_length_at_def divides_by_zero_def ADTS_HEADER_SIZE_def
      split: option.splits prod.splits)

lemma loop_body_Continue_frame_num:
  assumes "loop_body e fd dir s = Continue s'"
  shows "frame_num s' = frame_num s
      + (if valid_frame_at fd (next_candidate fd (pos s)) then 1 else 0)"
  using assms
  by (auto simp: loop_body_def Let_def valid_frame_at_def next_candidate_def
      ADTS_HEADER_SIZE_def split: if_splits option.splits prod.splits)

lemma visited_candidates_stop:
  "\<not> (pos s < length fd \<and> frame_num s < mf) \<Longrightarrow> visited_candidates e fd mf dir s = []"
  by (subst visited_candidates.simps) auto

lemma visited_candidates_step:
  "pos s < length fd \<Longrightarrow> frame_num s < mf \<Longrightarrow>
    visited_candidates e fd mf dir s =
      (if find_adts_sync (drop (pos s) fd) < 0 then []
       else next_candidate fd (pos s) #
         (case loop_body e fd dir s of
            Break \<Rightarrow> []
          | Continue s' \<Rightarrow> visited_candidates e fd mf dir s'
          | Trap f evs \<Rightarrow> []))"
  by (subst visited_candidates.simps) simp

lemma decode_loop_frame_count:
  "case decode_loop e fd mf dir s of
     Inl killed \<Rightarrow> True
   | Inr t \<Rightarrow> frame_num t = frame_num s
       + int (length (filter (valid_frame_at fd) (visited_candidates e fd mf dir s)))"
proof -
  have "True" ..
  then show ?thesis
  proof (induction rule: decode_loop_induct_rule
      [where I = "\<lambda>s. True"
         and Q = "\<lambda>s r. case r of Inl killed \<Rightarrow> True
             | Inr t \<Rightarrow> frame_num t = frame_num s
                 + int (length (filter (valid_frame_at fd) (visited_candidates e fd mf dir s)))"])
    case (stop s)
    then show ?case by (simp add: visited_candidates_stop)
  next
    case (step s)
    show ?case
    proof (cases "loop_body e fd dir s")
      case Break
      then have "find_adts_sync (drop (pos s) fd) < 0" by (simp add: loop_body_Break_iff)
      with step Break show ?thesis by (simp add: visited_candidates_step)
    next
      case (Continue s')
      then have "\<not> find_adts_sync (drop (pos s) fd) < 0"
        using loop_body_Break_iff [of e fd dir s] by simp
      with step Continue have v: "visited_candidates e fd mf dir s =
          next_candidate fd (pos s) # visited_candidates e fd mf dir s'"
        by (simp add: visited_candidates_step)
      note n = loop_body_Continue_frame_num [OF Continue]
      show ?thesis
        by (auto simp: Continue v n split: sum.splits)
    next
      case (Trap f evs)
      then show ?thesis by simp
    qed
  qed
qed

lemma main_summary_state:
  assumes run: "faad2_debug_main e argc argv3 dir input = Inr (status, evs)"
    and info: "Info_written p js \<in> set evs"
  obtains fd d0 bc sr ch d2 t where
    "input = Loaded fd" "NeAACDecOpen e = Some d0"
    "NeAACDecInit e (NeAACDecSetConfiguration e d0 FAAD_FMT_16BIT 0)
       (drop (nat (find_adts_sync fd)) fd) = (bc, sr, ch, d2)"
    "decode_loop e fd (if 3 < argc then argv3 else INT32_MAX) dir
       (main_loop_start (find_adts_sync fd) sr ch d2 dir) = Inr t"
    "js_total_frames js = frame_num t" "js_total_samples js = total_samples t"
proof (cases e argc argv3 dir input rule: main_cases)
  case (early evs')
  with run have "list_all (\<lambda>ev. \<not> is_loop_event ev) evs" by simp
  with info show ?thesis by (auto simp: list_all_iff)
next
  case (loop fd d0 bc sr ch d2)
  let ?s0 = "main_loop_start (find_adts_sync fd) sr ch d2 dir"
  let ?mf = "if 3 < argc then argv3 else INT32_MAX"
  have "frames_counted ?s0"
    by (simp add: frames_counted_def main_loop_start_def)
  note inv = decode_loop_frames_counted [OF this, of e fd ?mf dir]
  from run loop(7) obtain t where t: "decode_loop e fd ?mf dir ?s0 = Inr t"
    and evs: "evs = events t
        @ fst (write_info_json (fopen_ok e) dir sr ch (frame_num t) (total_samples t))
        @ [Stdout_decoded (frame_num t) (total_samples t), Call_NeAACDecClose]"
    by (auto split: sum.splits)
  from inv t have c: "frames_counted t" by simp
  then have "Info_written p js \<notin> set (events t)"
    by (auto simp: frames_counted_def filter_empty_conv)
  with info evs have "js_total_frames js = frame_num t" "js_total_samples js = total_samples t"
    by (auto simp: write_info_json_def split: if_splits)
  with loop t show ?thesis by (intro that [of fd d0 bc sr ch d2 t]) simp_all
qed

lemma main_total_frames_validated:
  assumes run: "faad2_debug_main e argc argv3 dir (Loaded fd) = Inr (status, evs)"
    and info: "Info_written p js \<in> set evs"
    and opn: "NeAACDecOpen e = Some d0"
    and init: "NeAACDecInit e (NeAACDecSetConfiguration e d0 FAAD_FMT_16BIT 0)
       (drop (nat (find_adts_sync fd)) fd) = (bc, sr, ch, d2)"
  shows "js_total_frames js =
      int (length (filter (valid_frame_at fd)
        (visited_candidates e fd (if 3 < argc then argv3 else INT32_MAX) dir
           (main_loop_start (find_adts_sync fd) sr ch d2 dir))))"
proof -
  from run info obtain fd' d0' bc' sr' ch' d2' t where *:
    "Loaded fd = Loaded fd'" "NeAACDecOpen e = Some d0'"
    "NeAACDecInit e (NeAACDecSetConfiguration e d0' FAAD_FMT_16BIT 0)
       (drop (nat (find_adts_sync fd')) fd') = (bc', sr', ch', d2')"
    "decode_loop e fd' (if 3 < argc then argv3 else INT32_MAX) dir
       (main_loop_start (find_adts_sync fd') sr' ch' d2' dir) = Inr t"
    "js_total_frames js = frame_num t"
    by (rule main_summary_state)
  from * opn init have eq: "fd' = fd" "sr' = sr" "ch' = ch" "d2' = d2" by simp_all
  from decode_loop_frame_count [where e = e and fd = fd and dir = dir
      and mf = "if 3 < argc then argv3 else INT32_MAX"
      and s = "main_loop_start (find_adts_sync fd) sr ch d2 dir"] *(4,5)
  show ?thesis by (simp add: eq main_loop_start_def)
qed

lemma example_candidates:
  "next_candidate example_file (Suc 0) = 1" "next_candidate example_file 8 = 8"
  "valid_frame_at example_file (Suc 0)" "\<not> valid_frame_at example_file 8"
  "frame_length_at example_file (Suc 0) = 7"
  "\<not> divides_by_zero example_env () (drop (Suc 0) example_file)"
  by (simp_all add: next_candidate_def valid_frame_at_def frame_length_at_def
      divides_by_zero_def example_drop_1 example_drop_8 example_find_1 example_find_8
      example_parse_1 example_parse_8 example_length example_env_def)

lemma example_visited:
  "visited_candidates example_env example_file 5 ''out''
     \<lparr>pos = Suc 0, frame_num = 0, total_samples = ts, decoder = (), events = evs\<rparr> = [1, 8]"
  by (simp add: visited_candidates_step example_body_1 example_body_8 example_length
      example_drop_1 example_drop_8 example_drop_9 example_find_1 example_find_8
      example_find_9 example_candidates)

text \<open>
  C7. The \<open>total_frames\<close> value written to the summary is the number of sync
  candidates the loop reached that passed header parsing and frame-length validation.
  It is also the number of decoder calls, and the number of decode errors plus the
  number of frame lines. On a pass that reaches a candidate, a rejected candidate
  leaves the counter as it is, and a valid frame adds one to it, whether its decoding
  fails or not (unless the decoder reports samples on no channels, where the program
  divides by zero).
\<close>

theorem total_frames_counts_processed_frames:
  "(faad2_debug_main e argc argv3 dir input = Inr (status, evs)
      \<and> Info_written p js \<in> set evs
     \<longrightarrow> js_total_frames js = int (length (filter is_decode_call evs))
       \<and> js_total_frames js = int (length (filter is_decode_error evs))
                                + int (length (filter is_frame_line evs))
       \<and> (input = Loaded fd \<and> NeAACDecOpen e = Some d0
            \<and> NeAACDecInit e (NeAACDecSetConfiguration e d0 FAAD_FMT_16BIT 0)
                  (drop (nat (find_adts_sync fd)) fd) = (bc, sr, ch, d2)
           \<longrightarrow> js_total_frames js =
                 int (length (filter (valid_frame_at fd)
                   (visited_candidates e fd (if 3 < argc then argv3 else INT32_MAX) dir
                      (main_loop_start (find_adts_sync fd) sr ch d2 dir))))))
   \<and> (0 \<le> find_adts_sync (drop (pos s) fd) \<longrightarrow>
        (if \<not> valid_frame_at fd (next_candidate fd (pos s))
         then \<exists>s'. loop_body e fd dir s = Continue s' \<and> frame_num s' = frame_num s
         else if divides_by_zero e (decoder s) (drop (next_candidate fd (pos s)) fd)
         then \<exists>evs'. loop_body e fd dir s = Trap Division_by_zero evs'
         else \<exists>s'. loop_body e fd dir s = Continue s' \<and> frame_num s' = frame_num s + 1))"
proof -
  have a: "js_total_frames js = int (length (filter is_decode_call evs))
       \<and> js_total_frames js = int (length (filter is_decode_error evs))
                                + int (length (filter is_frame_line evs))"
    if "faad2_debug_main e argc argv3 dir input = Inr (status, evs)"
      "Info_written p js \<in> set evs"
    using that by (rule main_total_frames)
  have b: "js_total_frames js =
         int (length (filter (valid_frame_at fd)
           (visited_candidates e fd (if 3 < argc then argv3 else INT32_MAX) dir
              (main_loop_start (find_adts_sync fd) sr ch d2 dir))))"
    if "faad2_debug_main e argc argv3 dir input = Inr (status, evs)"
      "Info_written p js \<in> set evs" "input = Loaded fd" "NeAACDecOpen e = Some d0"
      "NeAACDecInit e (NeAACDecSetConfiguration e d0 FAAD_FMT_16BIT 0)
                  (drop (nat (find_adts_sync fd)) fd) = (bc, sr, ch, d2)"
    using that(1,2,4,5) unfolding that(3) by (rule main_total_frames_validated)
  have c: "if \<not> valid_frame_at fd (next_candidate fd (pos s))
         then \<exists>s'. loop_body e fd dir s = Continue s' \<and> frame_num s' = frame_num s
         else if divides_by_zero e (decoder s) (drop (next_candidate fd (pos s)) fd)
         then \<exists>evs'. loop_body e fd dir s = Trap Division_by_zero evs'
         else \<exists>s'. loop_body e fd dir s = Continue s' \<and> frame_num s' = frame_num s + 1"
    if f: "0 \<le> find_adts_sync (drop (pos s) fd)"
    using loop_body_rejected [OF f, of e dir] loop_body_trap [OF f, of e dir]
      loop_body_frame [OF f, of e dir]
    by (auto split: if_splits)
  from a b c show ?thesis by blast
qed

theorem total_frames_counts_processed_frames_witness:
  "faad2_debug_main example_env 4 5 ''out'' (Loaded example_file) =
     Inr (0, [Stderr_skipped 1, Call_NeAACDecInit 1, Stdout_initialized 44100 2,
              Stdout_output_dir ''out'',
              File_written (Frame_adts_bin ''out'' 0)
                [0x0F, 0xFF, 0, 0, 1, 1, 4, 0, 2, 0, 0, 0, 7, 7, 0xFF, 0],
              Call_NeAACDecDecode 1,
              File_written (Frame_pcm_bin ''out'' 0) [1, 2, 3, 4, 5, 6, 7, 8],
              Stdout_frame 0 5 2,
              Stderr_invalid_header 1,
              Info_written (Info_json ''out'')
                \<lparr>js_sample_rate = 44100, js_channels = 2, js_total_frames = 1,
                 js_total_samples = 2, js_format = ''int16''\<rparr>,
              Stdout_decoded 1 2, Call_NeAACDecClose])
   \<and> visited_candidates example_env example_file 5 ''out''
        (main_loop_start 1 44100 2 () ''out'') = [1, 8]
   \<and> valid_frame_at example_file 1 \<and> \<not> valid_frame_at example_file 8
   \<and> loop_body example_env example_file ''out''
        \<lparr>pos = 8, frame_num = 1, total_samples = 2, decoder = (), events = []\<rparr> =
       Continue \<lparr>pos = 9, frame_num = 1, total_samples = 2, decoder = (),
                 events = [Stderr_invalid_header 1]\<rparr>
   \<and> (1::int) = int (length (filter (valid_frame_at example_file) [1, 8]))"
  using total_frames_counts_processed_frames
    [where e = example_env and argc = 4 and ?argv3.0 = 5 and dir = "''out''"
       and input = "Loaded example_file" and status = 0
       and evs = "[Stderr_skipped 1, Call_NeAACDecInit 1, Stdout_initialized 44100 2,
              Stdout_output_dir ''out'',
              File_written (Frame_adts_bin ''out'' 0)
                [0x0F, 0xFF, 0, 0, 1, 1, 4, 0, 2, 0, 0, 0, 7, 7, 0xFF, 0],
              Call_NeAACDecDecode 1,
              File_written (Frame_pcm_bin ''out'' 0) [1, 2, 3, 4, 5, 6, 7, 8],
              Stdout_frame 0 5 2,
              Stderr_invalid_header 1,
              Info_written (Info_json ''out'')
                \<lparr>js_sample_rate = 44100, js_channels = 2, js_total_frames = 1,
                 js_total_samples = 2, js_format = ''int16''\<rparr>,
              Stdout_decoded 1 2, Call_NeAACDecClose]"
       and p = "Info_json ''out''"
       and js = "\<lparr>js_sample_rate = 44100, js_channels = 2, js_total_frames = 1,
                 js_total_samples = 2, js_format = ''int16''\<rparr>"
       and fd = example_file and ?d0.0 = "()" and bc = 0 and sr = 44100 and ch = 2
       and ?d2.0 = "()"
       and s = "\<lparr>pos = 8, frame_num = 1, total_samples = 2, decoder = (), events = []\<rparr>"]
  by (simp add: example_main example_body_8 example_candidates example_find_0
      example_env_fields main_loop_start_def example_visited)

text \<open>
  C8. With \<open>max_frames \<le> 0\<close>, and a file in which a sync word is found and for which
  the decoder opens and initialises, the program still calls the decoder's
  initialisation, decodes no frame and writes no \<^verbatim>\<open>frame_*\<close> file; \<^verbatim>\<open>info.json\<close>, when
  it can be created, holds \<open>total_frames = 0\<close> and \<open>total_samples = 0\<close>; the exit status
  is 0.
\<close>

theorem max_frames_zero:
  assumes "3 < argc" and "argv3 \<le> 0"
    and "0 \<le> find_adts_sync fd"
    and "NeAACDecOpen e = Some d0"
    and "NeAACDecInit e (NeAACDecSetConfiguration e d0 FAAD_FMT_16BIT 0)
           (drop (nat (find_adts_sync fd)) fd) = (bc, sr, ch, d2)"
    and "0 \<le> bc"
  shows "faad2_debug_main e argc argv3 dir (Loaded fd) =
    Inr (0, (if 0 < find_adts_sync fd then [Stderr_skipped (find_adts_sync fd)] else [])
            @ [Call_NeAACDecInit (nat (find_adts_sync fd)),
               Stdout_initialized sr ch, Stdout_output_dir dir]
            @ (if fopen_ok e (Info_json dir)
               then [Info_written (Info_json dir)
                       \<lparr>js_sample_rate = sr, js_channels = ch, js_total_frames = 0,
                        js_total_samples = 0, js_format = ''int16''\<rparr>]
               else [])
            @ [Stdout_decoded 0 0, Call_NeAACDecClose])
    \<and> filter is_frame_artifact
          (run_events (faad2_debug_main e argc argv3 dir (Loaded fd))) = []
    \<and> filter is_decode_call
          (run_events (faad2_debug_main e argc argv3 dir (Loaded fd))) = []"
proof -
  have "decode_loop e fd argv3 dir (main_loop_start (find_adts_sync fd) sr ch d2 dir)
      = Inr (main_loop_start (find_adts_sync fd) sr ch d2 dir)"
    using assms(2) by (intro decode_loop_stop) (simp add: main_loop_start_def)
  with assms have run: "faad2_debug_main e argc argv3 dir (Loaded fd) =
    Inr (0, (if 0 < find_adts_sync fd then [Stderr_skipped (find_adts_sync fd)] else [])
            @ [Call_NeAACDecInit (nat (find_adts_sync fd)),
               Stdout_initialized sr ch, Stdout_output_dir dir]
            @ (if fopen_ok e (Info_json dir)
               then [Info_written (Info_json dir)
                       \<lparr>js_sample_rate = sr, js_channels = ch, js_total_frames = 0,
                        js_total_samples = 0, js_format = ''int16''\<rparr>]
               else [])
            @ [Stdout_decoded 0 0, Call_NeAACDecClose])"
    by (simp add: faad2_debug_main_def Let_def main_loop_start_def write_info_json_def)
  show ?thesis
    unfolding run by simp
qed

theorem max_frames_zero_witness:
  "faad2_debug_main example_env 4 0 ''out'' (Loaded example_file) =
     Inr (0, [Stderr_skipped 1, Call_NeAACDecInit 1, Stdout_initialized 44100 2,
              Stdout_output_dir ''out'',
              Info_written (Info_json ''out'')
                \<lparr>js_sample_rate = 44100, js_channels = 2, js_total_frames = 0,
                 js_total_samples = 0, js_format = ''int16''\<rparr>,
              Stdout_decoded 0 0, Call_NeAACDecClose])"
proof -
  have a: "(3::nat) < 4" "(0::int) \<le> 0" "0 \<le> find_adts_sync example_file"
    "NeAACDecOpen example_env = Some ()"
    "NeAACDecInit example_env (NeAACDecSetConfiguration example_env () FAAD_FMT_16BIT 0)
       (drop (nat (find_adts_sync example_file)) example_file) = (0, 44100, 2, ())"
    "(0::int) \<le> 0"
    by (simp_all add: example_find_0 example_env_fields)
  from max_frames_zero [OF a, of "''out''"] show ?thesis
    by (simp add: example_find_0 example_env_fields)
qed

section \<open>Termination and forward progress\<close>

lemma loop_body_candidate_le: "pos s \<le> next_candidate fd (pos s)"
  by (simp add: next_candidate_def)

text \<open>
  C6. For every input the decode loop ends, after at most as many passes as there
  are bytes from the cursor to the end of the input. A pass leaves the loop exactly
  when the scan finds no sync candidate. On every pass that reaches a candidate the
  cursor strictly increases: to one byte past the candidate when the header does not
  parse or the frame length is below 7 or runs past the end of the input, and to the
  candidate plus the frame length, which is at least 7, when the frame is handed to
  the decoder, whether it decodes or not. The one exception is a decoder that reports
  samples on no channels: there the program divides by zero and the run ends.
\<close>

theorem decode_loop_terminates:
  "decode_loop_fuel (length fd - pos s) e fd mf dir s = Some (decode_loop e fd mf dir s)
   \<and> (loop_body e fd dir s = Break \<longleftrightarrow> find_adts_sync (drop (pos s) fd) < 0)
   \<and> (loop_body e fd dir s = Continue s' \<longrightarrow> pos s < pos s')
   \<and> (0 \<le> find_adts_sync (drop (pos s) fd) \<longrightarrow>
        pos s \<le> next_candidate fd (pos s)
        \<and> (if \<not> valid_frame_at fd (next_candidate fd (pos s))
           then \<exists>s'. loop_body e fd dir s = Continue s'
                  \<and> pos s' = next_candidate fd (pos s) + 1
           else if divides_by_zero e (decoder s) (drop (next_candidate fd (pos s)) fd)
           then \<exists>evs. loop_body e fd dir s = Trap Division_by_zero evs
           else \<exists>s'. loop_body e fd dir s = Continue s'
                  \<and> pos s' = next_candidate fd (pos s)
                              + frame_length_at fd (next_candidate fd (pos s))
                  \<and> 7 \<le> frame_length_at fd (next_candidate fd (pos s))
                  \<and> pos s' \<le> length fd))"
proof -
  have c: "if \<not> valid_frame_at fd (next_candidate fd (pos s))
           then \<exists>s'. loop_body e fd dir s = Continue s'
                  \<and> pos s' = next_candidate fd (pos s) + 1
           else if divides_by_zero e (decoder s) (drop (next_candidate fd (pos s)) fd)
           then \<exists>evs. loop_body e fd dir s = Trap Division_by_zero evs
           else \<exists>s'. loop_body e fd dir s = Continue s'
                  \<and> pos s' = next_candidate fd (pos s)
                              + frame_length_at fd (next_candidate fd (pos s))
                  \<and> 7 \<le> frame_length_at fd (next_candidate fd (pos s))
                  \<and> pos s' \<le> length fd"
    if f: "0 \<le> find_adts_sync (drop (pos s) fd)"
    using loop_body_rejected [OF f, of e dir] loop_body_trap [OF f, of e dir]
      loop_body_frame [OF f, of e dir]
    by (auto split: if_splits)
  from c decode_loop_fuel_enough [of fd s "length fd - pos s" e mf dir]
    loop_body_progress [of e fd dir s s'] loop_body_Break_iff [of e fd dir s]
    loop_body_candidate_le [of s fd]
  show ?thesis by blast
qed

theorem decode_loop_terminates_witness:
  "decode_loop_fuel 10 example_env example_file 5 ''out''
      \<lparr>pos = 1, frame_num = 0, total_samples = 0, decoder = (), events = []\<rparr> =
     Some (Inr \<lparr>pos = 9, frame_num = 1, total_samples = 2, decoder = (),
       events =
         [File_written (Frame_adts_bin ''out'' 0)
            [0x0F, 0xFF, 0, 0, 1, 1, 4, 0, 2, 0, 0, 0, 7, 7, 0xFF, 0],
          Call_NeAACDecDecode 1,
          File_written (Frame_pcm_bin ''out'' 0) [1, 2, 3, 4, 5, 6, 7, 8],
          Stdout_frame 0 5 2,
          Stderr_invalid_header 1]\<rparr>)
   \<and> loop_body example_env example_file ''out''
        \<lparr>pos = 1, frame_num = 0, total_samples = 0, decoder = (), events = []\<rparr> =
       Continue \<lparr>pos = 8, frame_num = 1, total_samples = 2, decoder = (),
         events =
           [File_written (Frame_adts_bin ''out'' 0)
              [0x0F, 0xFF, 0, 0, 1, 1, 4, 0, 2, 0, 0, 0, 7, 7, 0xFF, 0],
            Call_NeAACDecDecode 1,
            File_written (Frame_pcm_bin ''out'' 0) [1, 2, 3, 4, 5, 6, 7, 8],
            Stdout_frame 0 5 2]\<rparr>
   \<and> next_candidate example_file 1 = 1 \<and> valid_frame_at example_file 1
   \<and> frame_length_at example_file 1 = 7 \<and> (8::nat) = 1 + 7
   \<and> loop_body example_env example_file ''out''
        \<lparr>pos = 8, frame_num = 1, total_samples = 2, decoder = (), events = []\<rparr> =
       Continue \<lparr>pos = 9, frame_num = 1, total_samples = 2, decoder = (),
         events = [Stderr_invalid_header 1]\<rparr>
   \<and> next_candidate example_file 8 = 8 \<and> \<not> valid_frame_at example_file 8"
  using decode_loop_terminates
    [where fd = example_file and e = example_env and mf = 5 and dir = "''out''"
       and s = "\<lparr>pos = 1, frame_num = 0, total_samples = 0, decoder = (), events = []\<rparr>"
       and s' = "\<lparr>pos = 8, frame_num = 1, total_samples = 2, decoder = (),
         events =
           [File_written (Frame_adts_bin ''out'' 0)
              [0x0F, 0xFF, 0, 0, 1, 1, 4, 0, 2, 0, 0, 0, 7, 7, 0xFF, 0],
            Call_NeAACDecDecode 1,
            File_written (Frame_pcm_bin ''out'' 0) [1, 2, 3, 4, 5, 6, 7, 8],
            Stdout_frame 0 5 2]\<rparr>"]
    decode_loop_terminates
    [where fd = example_file and e = example_env and mf = 5 and dir = "''out''"
       and s = "\<lparr>pos = 8, frame_num = 1, total_samples = 2, decoder = (), events = []\<rparr>"
       and s' = "\<lparr>pos = 9, frame_num = 1, total_samples = 2, decoder = (),
         events = [Stderr_invalid_header 1]\<rparr>"]
    example_loop [of "[]"] example_body_1 [of 0 "[]"] example_body_8 [of 2 "[]"]
  by (simp add: example_length example_candidates)

section \<open>Samples per channel\<close>






end
